theory Spec2Isabelle
  imports Complex_Main "HOL-Library.Char_ord" "HOL-Library.List_Lexorder" "HOL-Library.Multiset"
begin

section \<open>Python values\<close>

text \<open>
  The analysed functions receive dictionaries whose values are typed \<open>Any\<close>. A value is a
  scalar, a list of scalars or a dictionary from strings to scalars; deeper nesting is not
  modelled. A finite float is the rational number it denotes, so comparisons between floats,
  integers and booleans are exact; NaN and the infinities are not modelled. A dictionary is
  an association list in insertion order whose keys are pairwise different. A string is a
  list of characters with code points below 256.
\<close>

datatype scalar = SNone | SBool bool | SInt int | SFloat real | SStr string

datatype pyval = Scalar scalar | PList "scalar list" | PDict "(string \<times> scalar) list"

datatype py_error =
  TypeError | AttributeError | KeyError | ValueError | JSONDecodeError | RequestException

type_synonym 'a result = "py_error + 'a"

text \<open>The numeric value of a scalar, for the types Python compares numerically.\<close>

fun num_of :: "scalar \<Rightarrow> real option" where
  "num_of (SBool b) = Some (if b then 1 else 0)"
| "num_of (SInt i) = Some (of_int i)"
| "num_of (SFloat r) = Some r"
| "num_of SNone = None"
| "num_of (SStr s) = None"

text \<open>Python's \<open>==\<close> on scalars: \<open>1 == True\<close> and \<open>1.0 == 1\<close> hold.\<close>

fun py_eq :: "scalar \<Rightarrow> scalar \<Rightarrow> bool" where
  "py_eq SNone SNone = True"
| "py_eq (SStr s) (SStr t) = (s = t)"
| "py_eq a b = (case (num_of a, num_of b) of (Some x, Some y) \<Rightarrow> x = y | _ \<Rightarrow> False)"

text \<open>Truth value testing.\<close>

fun py_truthy :: "pyval \<Rightarrow> bool" where
  "py_truthy (Scalar SNone) = False"
| "py_truthy (Scalar (SBool b)) = b"
| "py_truthy (Scalar (SInt i)) = (i \<noteq> 0)"
| "py_truthy (Scalar (SFloat r)) = (r \<noteq> 0)"
| "py_truthy (Scalar (SStr s)) = (s \<noteq> [])"
| "py_truthy (PList xs) = (xs \<noteq> [])"
| "py_truthy (PDict d) = (d \<noteq> [])"

text \<open>\<open>x > 0\<close> for a scalar \<open>x\<close>: a string or \<open>None\<close> raises \<open>TypeError\<close>.\<close>

definition py_gt_zero :: "scalar \<Rightarrow> bool result" where
  "py_gt_zero x = (case num_of x of None \<Rightarrow> Inl TypeError | Some r \<Rightarrow> Inr (r > 0))"

text \<open>\<open>d.get(k, default)\<close> on a dictionary.\<close>

definition dict_get :: "(string \<times> 'v) list \<Rightarrow> string \<Rightarrow> 'v \<Rightarrow> 'v" where
  "dict_get d k dflt = (case map_of d k of None \<Rightarrow> dflt | Some v \<Rightarrow> v)"

section \<open>The downgrade guard\<close>

text \<open>
  \<open>main.py\<close>, \<open>detect_downgrade\<close>, over the module-level dictionary
  \<open>wallet_security_mode\<close>:
  \<^verbatim>\<open>
    previous = wallet_security_mode.get(wallet_id)
    if previous is True and not is_pqc:
        return True
    wallet_security_mode[wallet_id] = is_pqc
    return False
  \<close>
  The dictionary is passed in and returned.
\<close>

definition detect_downgrade ::
  "(string \<rightharpoonup> bool) \<Rightarrow> string \<Rightarrow> bool \<Rightarrow> bool \<times> (string \<rightharpoonup> bool)" where
  "detect_downgrade wallet_security_mode wallet_id is_pqc =
     (let previous = wallet_security_mode wallet_id in
      if previous = Some True \<and> \<not> is_pqc then (True, wallet_security_mode)
      else (False, wallet_security_mode(wallet_id \<mapsto> is_pqc)))"

text \<open>
  \<open>cryptanalysis/downgrade.py\<close>, \<open>detect_downgrade\<close>, over \<open>PQC_HISTORY\<close>:
  \<^verbatim>\<open>
    previously_used_pqc = PQC_HISTORY.get(sender, False)
    if previously_used_pqc and not is_pqc:
        return True
    if is_pqc:
        PQC_HISTORY[sender] = True
    return False
  \<close>
\<close>

definition history_get :: "(string \<rightharpoonup> bool) \<Rightarrow> string \<Rightarrow> bool" where
  "history_get PQC_HISTORY sender = (case PQC_HISTORY sender of None \<Rightarrow> False | Some b \<Rightarrow> b)"

definition detect_downgrade_history ::
  "(string \<rightharpoonup> bool) \<Rightarrow> string \<Rightarrow> bool \<Rightarrow> bool \<times> (string \<rightharpoonup> bool)" where
  "detect_downgrade_history PQC_HISTORY sender is_pqc =
     (let previously_used_pqc = history_get PQC_HISTORY sender in
      if previously_used_pqc \<and> \<not> is_pqc then (True, PQC_HISTORY)
      else if is_pqc then (False, PQC_HISTORY(sender \<mapsto> True))
      else (False, PQC_HISTORY))"

text \<open>A sequence of calls, each on the dictionary the previous call left.\<close>

fun run_downgrade ::
  "(string \<rightharpoonup> bool) \<Rightarrow> (string \<times> bool) list \<Rightarrow> bool list \<times> (string \<rightharpoonup> bool)" where
  "run_downgrade m [] = ([], m)"
| "run_downgrade m ((s, p) # cs) =
     (let (r, m') = detect_downgrade m s p; (rs, m'') = run_downgrade m' cs in (r # rs, m''))"

fun run_downgrade_history ::
  "(string \<rightharpoonup> bool) \<Rightarrow> (string \<times> bool) list \<Rightarrow> bool list \<times> (string \<rightharpoonup> bool)" where
  "run_downgrade_history m [] = ([], m)"
| "run_downgrade_history m ((s, p) # cs) =
     (let (r, m') = detect_downgrade_history m s p; (rs, m'') = run_downgrade_history m' cs
      in (r # rs, m''))"

section \<open>The risk oracle call\<close>

text \<open>
  What \<open>requests.post\<close> and \<open>response.json()\<close> can do in \<open>get_ai_risk\<close>: the request
  raises (time-out, connection error, any other exception), or a response arrives with a
  status code and a body that is JSON or not.
\<close>

datatype json_body = NotJson | JsonValue pyval

datatype http_outcome = RequestRaised | Response int json_body

text \<open>
  \<open>int(x)\<close>: truncation toward zero on a float, \<open>TypeError\<close> on \<open>None\<close>, and on a
  string the result of Python's integer parser, which is a parameter
  (\<open>None\<close> is its \<open>ValueError\<close>).
\<close>

fun py_int :: "(string \<Rightarrow> int option) \<Rightarrow> scalar \<Rightarrow> int result" where
  "py_int parse (SInt i) = Inr i"
| "py_int parse (SBool b) = Inr (if b then 1 else 0)"
| "py_int parse (SFloat r) = Inr (if r \<ge> 0 then \<lfloor>r\<rfloor> else \<lceil>r\<rceil>)"
| "py_int parse (SStr s) = (case parse s of None \<Rightarrow> Inl ValueError | Some i \<Rightarrow> Inr i)"
| "py_int parse SNone = Inl TypeError"

text \<open>The body of the \<open>try\<close> block: every exception is a value.\<close>

fun get_ai_risk_try :: "(string \<Rightarrow> int option) \<Rightarrow> http_outcome \<Rightarrow> int result" where
  "get_ai_risk_try parse RequestRaised = Inl RequestException"
| "get_ai_risk_try parse (Response status_code body) =
     (if status_code = 200 then
        (case body of
           NotJson \<Rightarrow> Inl JSONDecodeError
         | JsonValue (PDict data) \<Rightarrow> py_int parse (dict_get data ''risk_score'' (SInt 10))
         | JsonValue _ \<Rightarrow> Inl AttributeError)
      else Inr 10)"

text \<open>\<open>except Exception: return 10\<close>.\<close>

definition get_ai_risk :: "(string \<Rightarrow> int option) \<Rightarrow> http_outcome \<Rightarrow> int" where
  "get_ai_risk parse outcome =
     (case get_ai_risk_try parse outcome of Inl e \<Rightarrow> 10 | Inr score \<Rightarrow> score)"

section \<open>The analysis of the signing gate\<close>

text \<open>
  \<open>Transaction\<close> is the pydantic model of \<open>main.py\<close>; validation (\<open>amount > 0\<close>) happens
  before the handler runs. \<open>generate_analysis\<close> draws \<open>entropy_score\<close> and
  \<open>timing_leak_score\<close> with \<open>random.uniform\<close>; the draws are arguments here. The
  float nearest to 0.06 lies below it and the float nearest to 0.9 above it, so that for a
  draw that is a float \<open>draw > 0.06\<close> and \<open>draw < 0.9\<close> on the reals agree with the
  comparisons against the literals.
\<close>

record transaction =
  tx_amount :: real
  tx_to :: string
  tx_nonce :: int
  tx_timestamp :: string

record gate_analysis =
  ga_secure :: bool
  ga_risk :: string
  ga_risk_score :: int

definition generate_analysis ::
  "(string \<Rightarrow> int option) \<Rightarrow> http_outcome \<Rightarrow> real \<Rightarrow> real \<Rightarrow> transaction \<Rightarrow> string
     \<Rightarrow> gate_analysis" where
  "generate_analysis parse outcome entropy_score timing_leak_score tx_dict algorithm =
     (let ai_risk = get_ai_risk parse outcome;
          risk_score = ai_risk;
          risk_score = (if timing_leak_score > 0.06 then risk_score + 10 else risk_score);
          risk_score = (if entropy_score < 0.9 then risk_score + 10 else risk_score);
          risk_score = (if tx_amount tx_dict > 5000000 then 95 else risk_score);
          risk_score = min risk_score 95;
          risk = (if risk_score > 70 then ''high''
                  else if risk_score > 40 then ''medium'' else ''low'')
      in \<lparr>ga_secure = (risk \<noteq> ''high''), ga_risk = risk, ga_risk_score = risk_score\<rparr>)"

section \<open>JSON serialisation and canonicalisation\<close>

text \<open>
  \<open>json.dumps\<close> on a dictionary with string keys and scalar values, with
  \<open>sort_keys=True\<close> and the default \<open>ensure_ascii=True\<close>. The shortest round-trip
  rendering of a float (\<open>float.__repr__\<close>) is a parameter, \<open>float_repr\<close>.
\<close>

fun digits10 :: "nat \<Rightarrow> string" where
  "digits10 n =
     (if n < 10 then [''0123456789'' ! n]
      else digits10 (n div 10) @ [''0123456789'' ! (n mod 10)])"

declare digits10.simps [simp del]

definition py_str_int :: "int \<Rightarrow> string" where
  "py_str_int i = (if i < 0 then ''-'' @ digits10 (nat (- i)) else digits10 (nat i))"

definition hex_digit :: "nat \<Rightarrow> char" where
  "hex_digit n = ''0123456789abcdef'' ! n"

text \<open>
  The escapes of \<open>json.encoder.py_encode_basestring_ascii\<close>: the quote, the backslash,
  the five named control characters, and \<open>\u00XX\<close> for every other character outside
  the range from the space to the tilde.
\<close>

definition json_escape_char :: "char \<Rightarrow> string" where
  "json_escape_char c =
     (if c = CHR 0x22 then [CHR 0x5C, CHR 0x22]
      else if c = CHR 0x5C then [CHR 0x5C, CHR 0x5C]
      else if c = CHR 0x0A then [CHR 0x5C, CHR ''n'']
      else if c = CHR 0x0D then [CHR 0x5C, CHR ''r'']
      else if c = CHR 0x09 then [CHR 0x5C, CHR ''t'']
      else if c = CHR 0x08 then [CHR 0x5C, CHR ''b'']
      else if c = CHR 0x0C then [CHR 0x5C, CHR ''f'']
      else if CHR 0x20 \<le> c \<and> c \<le> CHR 0x7E then [c]
      else [CHR 0x5C, CHR ''u'', CHR ''0'', CHR ''0'',
            hex_digit ((of_char c :: nat) div 16), hex_digit ((of_char c :: nat) mod 16)])"

definition json_string :: "string \<Rightarrow> string" where
  "json_string s = [CHR 0x22] @ concat (map json_escape_char s) @ [CHR 0x22]"

fun json_scalar :: "(real \<Rightarrow> string) \<Rightarrow> scalar \<Rightarrow> string" where
  "json_scalar float_repr SNone = ''null''"
| "json_scalar float_repr (SBool b) = (if b then ''true'' else ''false'')"
| "json_scalar float_repr (SInt i) = py_str_int i"
| "json_scalar float_repr (SFloat r) = float_repr r"
| "json_scalar float_repr (SStr s) = json_string s"

text \<open>\<open>sep.join(xs)\<close>.\<close>

fun py_join :: "string \<Rightarrow> string list \<Rightarrow> string" where
  "py_join sep [] = []"
| "py_join sep [x] = x"
| "py_join sep (x # y # ys) = x @ sep @ py_join sep (y # ys)"

text \<open>
  \<open>json.dumps(dct, sort_keys=True, separators=(item_separator, key_separator))\<close>. The
  encoder sorts the items of the dictionary; the keys being pairwise different, that is
  the order of the keys, which is Python's order on strings: lexicographic by code point.
\<close>

definition json_item :: "(real \<Rightarrow> string) \<Rightarrow> string \<Rightarrow> string \<times> scalar \<Rightarrow> string" where
  "json_item float_repr key_separator kv =
     json_string (fst kv) @ key_separator @ json_scalar float_repr (snd kv)"

definition json_dumps ::
  "(real \<Rightarrow> string) \<Rightarrow> string \<Rightarrow> string \<Rightarrow> (string \<times> scalar) list \<Rightarrow> string" where
  "json_dumps float_repr item_separator key_separator dct =
     ''{'' @ py_join item_separator (map (json_item float_repr key_separator) (sort_key fst dct))
       @ ''}''"

text \<open>The default separators of \<open>json.dumps\<close>: \<open>', '\<close> and \<open>': '\<close>.\<close>

definition json_dumps_default :: "(real \<Rightarrow> string) \<Rightarrow> (string \<times> scalar) list \<Rightarrow> string" where
  "json_dumps_default float_repr dct = json_dumps float_repr '', '' '': '' dct"

text \<open>\<open>tx.dict()\<close> of the pydantic model: the fields in declaration order.\<close>

definition tx_dict_of :: "transaction \<Rightarrow> (string \<times> scalar) list" where
  "tx_dict_of tx =
     [(''amount'', SFloat (tx_amount tx)), (''to'', SStr (tx_to tx)),
      (''nonce'', SInt (tx_nonce tx)), (''timestamp'', SStr (tx_timestamp tx))]"

text \<open>
  \<open>main.py\<close>, \<open>canonical\<close>:
  \<open>json.dumps(tx.dict(), sort_keys=True, separators=(",", ":")).encode()\<close>. The output
  of the encoder is ASCII, so the bytes are its characters.
\<close>

definition canonical :: "(real \<Rightarrow> string) \<Rightarrow> transaction \<Rightarrow> string" where
  "canonical float_repr tx = json_dumps float_repr '','' '':'' (tx_dict_of tx)"

section \<open>The signing endpoint\<close>

text \<open>
  The module-level state of \<open>main.py\<close>: the wallets that own a signer, and the security
  mode dictionary. The signer of \<open>oqs\<close> is the parameter \<open>oqs_sign\<close> (wallet and message
  to the signature in hexadecimal), \<open>hashlib.sha256(m).hexdigest()\<close> is the parameter
  \<open>sha256_hex\<close>, and \<open>now_iso()\<close> is the argument \<open>now\<close>.
\<close>

record gate_state =
  pqc_wallets :: "string set"
  wallet_security_mode :: "string \<rightharpoonup> bool"

record sign_request =
  rq_wallet_id :: string
  rq_transaction :: transaction
  rq_algorithm :: string
  rq_zkp :: "(string \<times> pyval) list option"

record sign_response =
  rs_status :: string
  rs_signature :: string
  rs_algorithm :: string
  rs_transaction_hash :: string
  rs_analysis :: gate_analysis
  rs_timestamp :: string
  rs_wallet_id :: string

datatype detail = DetailText string | DetailAnalysis gate_analysis

datatype http_exception = HTTPException int detail

definition PQC_ALGO :: string where
  "PQC_ALGO = ''ML-DSA-44''"

text \<open>\<open>str.lower()\<close> on the letters A to Z; no other modelled character becomes a letter
  of \<open>pqc\<close>, the only string the result is compared with.\<close>

definition lower_char :: "char \<Rightarrow> char" where
  "lower_char c = (if CHR ''A'' \<le> c \<and> c \<le> CHR ''Z'' then char_of ((of_char c :: nat) + 32) else c)"

definition py_lower :: "string \<Rightarrow> string" where
  "py_lower s = map lower_char s"

text \<open>
  The two signing branches of \<open>sign_transaction\<close>: the state they leave, and the
  exception they raise or the signature and the algorithm name.
\<close>

definition sign_branch ::
  "(string \<Rightarrow> string) \<Rightarrow> (string \<Rightarrow> string \<Rightarrow> string) \<Rightarrow> gate_state \<Rightarrow> sign_request \<Rightarrow> string
     \<Rightarrow> gate_state \<times> (http_exception + string \<times> string)" where
  "sign_branch sha256_hex oqs_sign st request message =
     (let wallet_id = rq_wallet_id request in
      if py_lower (rq_algorithm request) = ''pqc'' then
        (let (downgrade, mode) = detect_downgrade (wallet_security_mode st) wallet_id True;
             st = st\<lparr>wallet_security_mode := mode\<rparr>
         in if downgrade
            then (st, Inl (HTTPException 400 (DetailText ''Security downgrade detected'')))
            else (st\<lparr>pqc_wallets := insert wallet_id (pqc_wallets st)\<rparr>,
                  Inr (oqs_sign wallet_id message, PQC_ALGO)))
      else (st, Inr (sha256_hex message, ''ECDSA-SHA256'')))"

definition sign_transaction ::
  "(real \<Rightarrow> string) \<Rightarrow> (string \<Rightarrow> string) \<Rightarrow> (string \<Rightarrow> string \<Rightarrow> string) \<Rightarrow> (string \<Rightarrow> int option)
     \<Rightarrow> http_outcome \<Rightarrow> real \<Rightarrow> real \<Rightarrow> string \<Rightarrow> gate_state \<Rightarrow> sign_request
     \<Rightarrow> gate_state \<times> (http_exception + sign_response)" where
  "sign_transaction float_repr sha256_hex oqs_sign parse outcome entropy_score timing_leak_score
       now st request =
     (let message = canonical float_repr (rq_transaction request) in
      case sign_branch sha256_hex oqs_sign st request message of
        (st', Inl exc) \<Rightarrow> (st', Inl exc)
      | (st', Inr (signature, algo_name)) \<Rightarrow>
          (let analysis = generate_analysis parse outcome entropy_score timing_leak_score
                            (rq_transaction request) algo_name
           in if ga_risk analysis = ''high''
              then (st', Inl (HTTPException 400 (DetailAnalysis analysis)))
              else (st', Inr \<lparr>rs_status = ''success'', rs_signature = signature,
                               rs_algorithm = algo_name,
                               rs_transaction_hash = sha256_hex message,
                               rs_analysis = analysis, rs_timestamp = now,
                               rs_wallet_id = rq_wallet_id request\<rparr>)))"

section \<open>Replay detection\<close>

text \<open>
  \<open>cryptanalysis/replay.py\<close>, over the module-level set \<open>_seen\<close>:
  \<^verbatim>\<open>
    key = hashlib.sha256((json.dumps(tx, sort_keys=True) + signature).encode()).hexdigest()
    if key in _seen:
        return True
    _seen.add(key)
    return False
  \<close>
\<close>

definition replay_key ::
  "(real \<Rightarrow> string) \<Rightarrow> (string \<Rightarrow> string) \<Rightarrow> (string \<times> scalar) list \<Rightarrow> string \<Rightarrow> string" where
  "replay_key float_repr sha256_hex tx signature =
     sha256_hex (json_dumps_default float_repr tx @ signature)"

definition detect_replay ::
  "(real \<Rightarrow> string) \<Rightarrow> (string \<Rightarrow> string) \<Rightarrow> string set \<Rightarrow> (string \<times> scalar) list \<Rightarrow> string
     \<Rightarrow> bool \<times> string set" where
  "detect_replay float_repr sha256_hex seen tx signature =
     (let key = replay_key float_repr sha256_hex tx signature in
      if key \<in> seen then (True, seen) else (False, insert key seen))"

text \<open>A sequence of calls, each on the set the previous call left.\<close>

fun run_replay ::
  "(real \<Rightarrow> string) \<Rightarrow> (string \<Rightarrow> string) \<Rightarrow> string set
     \<Rightarrow> ((string \<times> scalar) list \<times> string) list \<Rightarrow> bool list \<times> string set" where
  "run_replay float_repr sha256_hex seen [] = ([], seen)"
| "run_replay float_repr sha256_hex seen ((tx, signature) # calls) =
     (let (r, seen') = detect_replay float_repr sha256_hex seen tx signature;
          (rs, seen'') = run_replay float_repr sha256_hex seen' calls
      in (r # rs, seen''))"

section \<open>ZKP attribute verification\<close>

text \<open>
  \<open>field in container\<close>: equality with an element of a list, a key of a dictionary, a
  substring of a string; any other scalar is not iterable.
\<close>

fun is_substring :: "string \<Rightarrow> string \<Rightarrow> bool" where
  "is_substring s [] = (s = [])"
| "is_substring s (c # cs) = (take (length s) (c # cs) = s \<or> is_substring s cs)"

fun py_contains :: "string \<Rightarrow> pyval \<Rightarrow> bool result" where
  "py_contains field (PList xs) = Inr (list_ex (py_eq (SStr field)) xs)"
| "py_contains field (PDict d) = Inr (map_of d field \<noteq> None)"
| "py_contains field (Scalar (SStr s)) = Inr (is_substring field s)"
| "py_contains field (Scalar x) = Inl TypeError"

text \<open>\<open>container.get(key)\<close>: only a dictionary has the method.\<close>

fun py_get :: "pyval \<Rightarrow> string \<Rightarrow> scalar result" where
  "py_get (PDict d) key = Inr (dict_get d key SNone)"
| "py_get other key = Inl AttributeError"

text \<open>
  The loop over \<open>required\<close> of \<open>verify_zkp_attributes\<close>; \<open>Some issue\<close> is its early
  \<open>return False, issue\<close>.
\<close>

fun check_required :: "pyval \<Rightarrow> pyval \<Rightarrow> string list \<Rightarrow> string option result" where
  "check_required attributes public_inputs [] = Inr None"
| "check_required attributes public_inputs (field # rest) =
     (case py_contains field attributes of
        Inl e \<Rightarrow> Inl e
      | Inr in_attributes \<Rightarrow>
          if \<not> in_attributes then Inr (Some (''Missing ZKP attribute: '' @ field))
          else (case py_contains field public_inputs of
                  Inl e \<Rightarrow> Inl e
                | Inr in_inputs \<Rightarrow>
                    if \<not> in_inputs then Inr (Some (''Missing ZKP public input: '' @ field))
                    else check_required attributes public_inputs rest))"

text \<open>\<open>if "k" in attributes: if public_inputs.get("k") != tx.get(f): return False, issue\<close>;
  \<open>Some issue\<close> is the early return.\<close>

definition check_optional ::
  "pyval \<Rightarrow> pyval \<Rightarrow> (string \<times> scalar) list \<Rightarrow> string \<Rightarrow> string \<Rightarrow> string
     \<Rightarrow> string option result" where
  "check_optional attributes public_inputs tx k f issue =
     (case py_contains k attributes of
        Inl e \<Rightarrow> Inl e
      | Inr present \<Rightarrow>
          if present then
            (case py_get public_inputs k of
               Inl e \<Rightarrow> Inl e
             | Inr v \<Rightarrow> if \<not> py_eq v (dict_get tx f SNone) then Inr (Some issue) else Inr None)
          else Inr None)"

text \<open>
  \<open>cryptanalysis/zkp_layer.py\<close>, \<open>verify_zkp_attributes\<close>. The key the function reads
  is \<open>enable\<close>, as its docstring says. A dictionary that is \<open>None\<close> or empty, or whose
  \<open>enable\<close> is missing or falsy, passes.
\<close>

definition verify_zkp_attributes ::
  "(string \<times> scalar) list \<Rightarrow> (string \<times> pyval) list option \<Rightarrow> (bool \<times> string) result" where
  "verify_zkp_attributes tx zkp =
     (case zkp of
        None \<Rightarrow> Inr (True, [])
      | Some z \<Rightarrow>
          if z = [] \<or> \<not> py_truthy (dict_get z ''enable'' (Scalar (SBool False)))
          then Inr (True, [])
          else
            (let attributes = dict_get z ''attributes'' (PList []);
                 public_inputs = dict_get z ''public_inputs'' (PDict [])
             in case check_required attributes public_inputs [''amount_gt_zero''] of
                  Inl e \<Rightarrow> Inl e
                | Inr (Some issue) \<Rightarrow> Inr (False, issue)
                | Inr None \<Rightarrow>
                   (case py_get public_inputs ''amount_gt_zero'' of
                      Inl e \<Rightarrow> Inl e
                    | Inr v \<Rightarrow>
                       (case py_gt_zero (dict_get tx ''amount'' (SInt 0)) of
                          Inl e \<Rightarrow> Inl e
                        | Inr positive \<Rightarrow>
                           if \<not> py_eq v (SBool positive)
                           then Inr (False, ''ZKP verification failed: amount_gt_zero mismatch'')
                           else
                             (case check_optional attributes public_inputs tx ''nonce'' ''nonce''
                                     ''ZKP verification failed: nonce mismatch'' of
                                Inl e \<Rightarrow> Inl e
                              | Inr (Some issue) \<Rightarrow> Inr (False, issue)
                              | Inr None \<Rightarrow>
                                 (case check_optional attributes public_inputs tx ''recipient''
                                         ''to'' ''ZKP verification failed: recipient mismatch'' of
                                    Inl e \<Rightarrow> Inl e
                                  | Inr (Some issue) \<Rightarrow> Inr (False, issue)
                                  | Inr None \<Rightarrow> Inr (True, [])))))))"

section \<open>Risk aggregation\<close>

text \<open>
  \<open>cryptanalysis/sidechannel.py\<close>, \<open>timing_leak_score\<close>:
  \<^verbatim>\<open>
    base = len(str(tx)) / 1000
    jitter = random.uniform(0.0, 0.4)
    return min(1.0, base + jitter)
  \<close>
  The division and the addition are those of binary64: each gives the float nearest to
  the exact result. Rounding to the nearest float is the parameter \<open>rnd\<close>, the length of
  \<open>str(tx)\<close> is the parameter \<open>str_len\<close>, and the draw is the argument \<open>jitter\<close>.
\<close>

definition timing_leak_score ::
  "((string \<times> scalar) list \<Rightarrow> nat) \<Rightarrow> (real \<Rightarrow> real) \<Rightarrow> (string \<times> scalar) list \<Rightarrow> real
     \<Rightarrow> real" where
  "timing_leak_score str_len rnd tx jitter =
     (let base = rnd (real (str_len tx) / 1000) in min 1 (rnd (base + jitter)))"

text \<open>
  The literals \<open>0.85\<close> and \<open>0.45\<close> that \<open>analyze_transaction\<close> compares the timing
  score with are the floats nearest to these decimals: 53-bit numerators over a power of
  two. The second lies above 0.45, so that a score of exactly that float is not above the
  threshold.
\<close>

definition float_0_85 :: real where
  "float_0_85 = 7656119366529843 / 9007199254740992"

definition float_0_45 :: real where
  "float_0_45 = 8106479329266893 / 18014398509481984"

text \<open>
  The three local variables of \<open>analyze_transaction\<close>, and its four signals in the order
  of the source. Each signal is the statement block of the source on these variables.
\<close>

record verdict =
  v_issues :: "string list"
  v_secure :: bool
  v_risk :: string

definition initial_verdict :: verdict where
  "initial_verdict = \<lparr>v_issues = [], v_secure = True, v_risk = ''low''\<rparr>"

definition replay_signal :: "bool \<Rightarrow> verdict \<Rightarrow> verdict" where
  "replay_signal replayed v =
     (if replayed
      then \<lparr>v_issues = v_issues v @ [''Replay attack detected''], v_secure = False,
            v_risk = ''high''\<rparr>
      else v)"

text \<open>
  \<open>entropy = len(set(msg_hash)) / 16.0\<close> is a multiple of one sixteenth, which a float
  holds exactly; no such multiple lies between a threshold and the float nearest to it,
  so the comparisons agree with those on the reals.
\<close>

definition message_entropy :: "string \<Rightarrow> real" where
  "message_entropy msg_hash = real (length (remdups msg_hash)) / 16"

definition entropy_signal :: "real \<Rightarrow> verdict \<Rightarrow> verdict" where
  "entropy_signal entropy v =
     (if entropy < 0.15
      then \<lparr>v_issues = v_issues v @ [''Very low message entropy''], v_secure = False,
            v_risk = ''high''\<rparr>
      else if entropy < 0.35
      then \<lparr>v_issues = v_issues v @ [''Low message entropy''], v_secure = v_secure v,
            v_risk = ''medium''\<rparr>
      else v)"

definition timing_signal :: "real \<Rightarrow> verdict \<Rightarrow> verdict" where
  "timing_signal timing v =
     (if timing > float_0_85
      then \<lparr>v_issues = v_issues v @ [''High timing side-channel risk''], v_secure = False,
            v_risk = ''high''\<rparr>
      else if timing > float_0_45
      then \<lparr>v_issues = v_issues v @ [''Moderate timing side-channel risk''],
            v_secure = v_secure v,
            v_risk = (if v_risk v \<noteq> ''high'' then ''medium'' else v_risk v)\<rparr>
      else v)"

definition zkp_signal :: "bool \<times> string \<Rightarrow> verdict \<Rightarrow> verdict" where
  "zkp_signal r v =
     (let (zkp_ok, zkp_issue) = r in
      if \<not> zkp_ok
      then \<lparr>v_issues = v_issues v @ [zkp_issue], v_secure = False, v_risk = ''high''\<rparr>
      else v)"

text \<open>
  The dictionary \<open>analyze_transaction\<close> returns. \<open>round(x, 3)\<close> is the parameter
  \<open>round3\<close>.
\<close>

record risk_analysis =
  ra_secure :: bool
  ra_risk :: string
  ra_issues :: "string list"
  ra_entropy :: real
  ra_timing_leak_score :: real

definition report :: "(real \<Rightarrow> real) \<Rightarrow> real \<Rightarrow> real \<Rightarrow> verdict \<Rightarrow> risk_analysis" where
  "report round3 entropy timing v =
     \<lparr>ra_secure = v_secure v, ra_risk = v_risk v, ra_issues = v_issues v,
      ra_entropy = round3 entropy, ra_timing_leak_score = round3 timing\<rparr>"

text \<open>
  The verdict after the first three signals, which cannot raise, and
  \<open>cryptanalysis/analyzer.py\<close>, \<open>analyze_transaction\<close>: the set \<open>_seen\<close> is passed in
  and returned, also when \<open>verify_zkp_attributes\<close> raises.
\<close>

definition entropy_of ::
  "(real \<Rightarrow> string) \<Rightarrow> (string \<Rightarrow> string) \<Rightarrow> (string \<times> scalar) list \<Rightarrow> real" where
  "entropy_of float_repr sha256_hex tx =
     message_entropy (sha256_hex (json_dumps_default float_repr tx))"

definition analyze_transaction ::
  "(real \<Rightarrow> string) \<Rightarrow> (string \<Rightarrow> string) \<Rightarrow> ((string \<times> scalar) list \<Rightarrow> nat) \<Rightarrow> (real \<Rightarrow> real)
     \<Rightarrow> (real \<Rightarrow> real) \<Rightarrow> real \<Rightarrow> string set \<Rightarrow> (string \<times> scalar) list \<Rightarrow> string \<Rightarrow> string
     \<Rightarrow> (string \<times> pyval) list option \<Rightarrow> string set \<times> risk_analysis result" where
  "analyze_transaction float_repr sha256_hex str_len rnd round3 jitter seen tx signature algorithm
       zkp =
     (let (replayed, seen') = detect_replay float_repr sha256_hex seen tx signature;
          v = replay_signal replayed initial_verdict;
          entropy = entropy_of float_repr sha256_hex tx;
          v = entropy_signal entropy v;
          timing = timing_leak_score str_len rnd tx jitter;
          v = timing_signal timing v
      in case zkp of
           None \<Rightarrow> (seen', Inr (report round3 entropy timing v))
         | Some z \<Rightarrow>
            (case verify_zkp_attributes tx (Some z) of
               Inl e \<Rightarrow> (seen', Inl e)
             | Inr r \<Rightarrow> (seen', Inr (report round3 entropy timing (zkp_signal r v)))))"

section \<open>The fraud mapper\<close>

text \<open>
  \<open>cryptanalysis/fraud_mapper.py\<close> reads the keys \<open>risk\<close> (with a default),
  \<open>metrics\<close> (a missing key raises) and, when the risk is high, \<open>issues\<close>.
\<close>

record analysis_dict =
  ad_risk :: "string option"
  ad_metrics :: "(string \<times> scalar) list option"
  ad_issues :: "string list option"

record fraud_alert =
  fraud :: bool
  probability :: real
  severity :: string
  reason :: string

definition map_to_fraud_alert :: "analysis_dict \<Rightarrow> fraud_alert result" where
  "map_to_fraud_alert analysis =
     (let risk = (case ad_risk analysis of None \<Rightarrow> ''low'' | Some r \<Rightarrow> r) in
      case ad_metrics analysis of
        None \<Rightarrow> Inl KeyError
      | Some metrics \<Rightarrow>
         (let entropy = dict_get metrics ''entropy'' (SInt 1);
              timing = dict_get metrics ''timing_leak_score'' (SInt 0)
          in if risk = ''high'' then
               (case ad_issues analysis of
                  None \<Rightarrow> Inl KeyError
                | Some issues \<Rightarrow>
                    Inr \<lparr>fraud = True, probability = 0.85, severity = ''High'',
                         reason = py_join '', '' issues\<rparr>)
             else if risk = ''medium'' then
               Inr \<lparr>fraud = True, probability = 0.55, severity = ''Medium'',
                    reason = ''Suspicious entropy or timing pattern''\<rparr>
             else
               Inr \<lparr>fraud = False, probability = 0.1, severity = ''Low'',
                    reason = ''Transaction appears normal''\<rparr>))"

text \<open>The dictionary of a \<open>risk_analysis\<close>, as \<open>analyze_transaction\<close> builds it.\<close>

definition as_dict :: "risk_analysis \<Rightarrow> analysis_dict" where
  "as_dict a =
     \<lparr>ad_risk = Some (ra_risk a),
      ad_metrics = Some [(''entropy'', SFloat (ra_entropy a)),
                         (''timing_leak_score'', SFloat (ra_timing_leak_score a))],
      ad_issues = Some (ra_issues a)\<rparr>"

section \<open>Auxiliary notions and example values\<close>

text \<open>A verdict whose high risk comes with \<open>secure = False\<close>.\<close>

definition consistent :: "verdict \<Rightarrow> bool" where
  "consistent v = (v_risk v \<noteq> ''high'' \<or> \<not> v_secure v)"

text \<open>
  The transaction of the end-to-end scenarios, a rendering of floats that agrees with
  \<open>float.__repr__\<close> on the integer-valued floats below \<open>1e16\<close>, among them \<open>100.0\<close>,
  and a digest with all sixteen symbols.
\<close>

definition example_tx :: transaction where
  "example_tx = \<lparr>tx_amount = 100, tx_to = ''bob'', tx_nonce = 1,
                  tx_timestamp = ''2024-01-01T00:00:00Z''\<rparr>"

definition integral_float_repr :: "real \<Rightarrow> string" where
  "integral_float_repr r = py_str_int \<lfloor>r\<rfloor> @ ''.0''"

definition full_digest :: string where
  "full_digest = ''0123456789abcdef0123456789abcdef0123456789abcdef0123456789abcdef''"

definition empty_state :: gate_state where
  "empty_state = \<lparr>pqc_wallets = {}, wallet_security_mode = Map.empty\<rparr>"

definition sign_request_of :: "string \<Rightarrow> string \<Rightarrow> sign_request" where
  "sign_request_of wallet algorithm =
     \<lparr>rq_wallet_id = wallet, rq_transaction = example_tx, rq_algorithm = algorithm,
      rq_zkp = None\<rparr>"

text \<open>
  The verdict of the ZKP verifier in the words of its specification, for a proof whose
  attributes are a list and whose public inputs are a dictionary: the required attribute
  \<open>amount_gt_zero\<close> in both, its public input equal to \<open>amount > 0\<close>, and the
  optional attributes \<open>nonce\<close> and \<open>recipient\<close>, when listed, equal to the fields of
  the transaction. Equality is Python's.
\<close>

definition has_attribute :: "string \<Rightarrow> scalar list \<Rightarrow> bool" where
  "has_attribute k attrs = list_ex (py_eq (SStr k)) attrs"

definition zkp_expected ::
  "(string \<times> scalar) list \<Rightarrow> scalar list \<Rightarrow> (string \<times> scalar) list \<Rightarrow> bool \<Rightarrow> bool \<times> string" where
  "zkp_expected tx attrs inputs positive =
     (if \<not> has_attribute ''amount_gt_zero'' attrs
      then (False, ''Missing ZKP attribute: amount_gt_zero'')
      else if map_of inputs ''amount_gt_zero'' = None
      then (False, ''Missing ZKP public input: amount_gt_zero'')
      else if \<not> py_eq (dict_get inputs ''amount_gt_zero'' SNone) (SBool positive)
      then (False, ''ZKP verification failed: amount_gt_zero mismatch'')
      else if has_attribute ''nonce'' attrs
              \<and> \<not> py_eq (dict_get inputs ''nonce'' SNone) (dict_get tx ''nonce'' SNone)
      then (False, ''ZKP verification failed: nonce mismatch'')
      else if has_attribute ''recipient'' attrs
              \<and> \<not> py_eq (dict_get inputs ''recipient'' SNone) (dict_get tx ''to'' SNone)
      then (False, ''ZKP verification failed: recipient mismatch'')
      else (True, []))"

text \<open>
  The proof of the fourth end-to-end scenario, with the name of its switch as an argument:
  \<open>{key: True, "attributes": ["amount_gt_zero"], "public_inputs": {"amount_gt_zero": False}}\<close>.
\<close>

definition scenario_zkp :: "string \<Rightarrow> (string \<times> pyval) list" where
  "scenario_zkp key =
     [(key, Scalar (SBool True)), (''attributes'', PList [SStr ''amount_gt_zero'']),
      (''public_inputs'', PDict [(''amount_gt_zero'', SBool False)])]"

section \<open>Properties of the downgrade guard\<close>

lemma detect_downgrade_keeps_pqc:
  "m s = Some True \<Longrightarrow> snd (detect_downgrade m s' p) s = Some True"
  by (auto simp: detect_downgrade_def Let_def)

lemma run_downgrade_keeps_pqc:
  "m s = Some True \<Longrightarrow> snd (run_downgrade m cs) s = Some True"
proof (induction cs arbitrary: m)
  case Nil
  then show ?case by simp
next
  case (Cons c cs)
  obtain s' p where c: "c = (s', p)" by (cases c)
  have "snd (detect_downgrade m s' p) s = Some True"
    using Cons.prems by (rule detect_downgrade_keeps_pqc)
  then have "snd (run_downgrade (snd (detect_downgrade m s' p)) cs) s = Some True"
    by (rule Cons.IH)
  then show ?case
    by (simp add: c split_beta Let_def)
qed

lemma detect_downgrade_history_keeps_pqc:
  "history_get m s \<Longrightarrow> history_get (snd (detect_downgrade_history m s' p)) s"
  by (auto simp: detect_downgrade_history_def history_get_def Let_def)

lemma run_downgrade_history_keeps_pqc:
  "history_get m s \<Longrightarrow> history_get (snd (run_downgrade_history m cs)) s"
proof (induction cs arbitrary: m)
  case Nil
  then show ?case by simp
next
  case (Cons c cs)
  obtain s' p where c: "c = (s', p)" by (cases c)
  have "history_get (snd (detect_downgrade_history m s' p)) s"
    using Cons.prems by (rule detect_downgrade_history_keeps_pqc)
  then have "history_get (snd (run_downgrade_history (snd (detect_downgrade_history m s' p)) cs)) s"
    by (rule Cons.IH)
  then show ?case
    by (simp add: c split_beta Let_def)
qed

text \<open>
  The two guards answer every call sequence alike when the dictionary of the second reads
  as "ever used PQC" exactly where the dictionary of the first holds \<open>True\<close>.
\<close>

definition same_history :: "(string \<rightharpoonup> bool) \<Rightarrow> (string \<rightharpoonup> bool) \<Rightarrow> bool" where
  "same_history m h = (\<forall>s. (m s = Some True) = history_get h s)"

lemma same_history_step:
  assumes "same_history m h"
  shows "fst (detect_downgrade m s p) = fst (detect_downgrade_history h s p)"
    and "same_history (snd (detect_downgrade m s p)) (snd (detect_downgrade_history h s p))"
  using assms
  by (auto simp: same_history_def detect_downgrade_def detect_downgrade_history_def
      history_get_def Let_def split: option.splits)

lemma run_downgrade_same_answers:
  "same_history m h \<Longrightarrow> fst (run_downgrade m cs) = fst (run_downgrade_history h cs)"
proof (induction cs arbitrary: m h)
  case Nil
  then show ?case by simp
next
  case (Cons c cs)
  obtain s p where c: "c = (s, p)" by (cases c)
  note step = same_history_step [OF Cons.prems, of s p]
  have "fst (run_downgrade (snd (detect_downgrade m s p)) cs)
      = fst (run_downgrade_history (snd (detect_downgrade_history h s p)) cs)"
    using step(2) by (rule Cons.IH)
  then show ?case
    using step(1) by (simp add: c split_beta Let_def)
qed

text \<open>
  C8. The transition rule of the downgrade guard. In \<open>main.py\<close>: a stored \<open>True\<close> and a
  classical call return \<open>True\<close> and leave the dictionary as it is; every other call stores
  \<open>is_pqc\<close> for the sender and returns \<open>False\<close>. In \<open>cryptanalysis/downgrade.py\<close> the same
  holds of the record as the guard reads it (\<open>PQC_HISTORY.get(sender, False)\<close>), the
  records of the other senders being untouched. So a call with \<open>is_pqc = True\<close> never
  returns \<open>True\<close>, a sender without history signing classically is no downgrade, a PQC
  call followed by a PQC call returns \<open>False\<close>, and once PQC is recorded a classical call
  returns \<open>True\<close> after any sequence of calls in between.
\<close>

theorem downgrade_transition_rule:
  "detect_downgrade m s p =
     (if m s = Some True \<and> \<not> p then (True, m) else (False, m(s \<mapsto> p)))
   \<and> fst (detect_downgrade_history h s p) = (history_get h s \<and> \<not> p)
   \<and> history_get (snd (detect_downgrade_history h s p)) s
       = (if history_get h s \<and> \<not> p then history_get h s else p)
   \<and> (\<forall>s'. s' \<noteq> s \<longrightarrow> snd (detect_downgrade_history h s p) s' = h s')
   \<and> fst (detect_downgrade m s True) = False
   \<and> fst (detect_downgrade_history h s True) = False
   \<and> (m s = None \<longrightarrow> fst (detect_downgrade m s False) = False)
   \<and> (h s = None \<longrightarrow> fst (detect_downgrade_history h s False) = False)
   \<and> fst (detect_downgrade (snd (detect_downgrade m s True)) s True) = False
   \<and> fst (detect_downgrade (snd (run_downgrade (snd (detect_downgrade m s True)) cs)) s False)
       = True
   \<and> fst (detect_downgrade_history
            (snd (run_downgrade_history (snd (detect_downgrade_history h s True)) cs)) s False)
       = True"
proof -
  have 1: "detect_downgrade m s p =
           (if m s = Some True \<and> \<not> p then (True, m) else (False, m(s \<mapsto> p)))"
    by (simp add: detect_downgrade_def)
  have 2: "fst (detect_downgrade_history h s p) = (history_get h s \<and> \<not> p)"
    by (simp add: detect_downgrade_history_def)
  have 3: "history_get (snd (detect_downgrade_history h s p)) s
           = (if history_get h s \<and> \<not> p then history_get h s else p)"
    by (auto simp: detect_downgrade_history_def history_get_def)
  have 4: "\<forall>s'. s' \<noteq> s \<longrightarrow> snd (detect_downgrade_history h s p) s' = h s'"
    by (simp add: detect_downgrade_history_def)
  have 5: "fst (detect_downgrade m s True) = False"
    by (simp add: detect_downgrade_def)
  have 6: "fst (detect_downgrade_history h s True) = False"
    by (simp add: detect_downgrade_history_def)
  have 7: "m s = None \<longrightarrow> fst (detect_downgrade m s False) = False"
    by (simp add: detect_downgrade_def)
  have 8: "h s = None \<longrightarrow> fst (detect_downgrade_history h s False) = False"
    by (simp add: detect_downgrade_history_def history_get_def)
  have 9: "fst (detect_downgrade (snd (detect_downgrade m s True)) s True) = False"
    by (simp add: detect_downgrade_def)
  have "snd (detect_downgrade m s True) s = Some True"
    by (simp add: detect_downgrade_def)
  then have "snd (run_downgrade (snd (detect_downgrade m s True)) cs) s = Some True"
    by (rule run_downgrade_keeps_pqc)
  then have 10:
    "fst (detect_downgrade (snd (run_downgrade (snd (detect_downgrade m s True)) cs)) s False)
       = True"
    by (simp add: detect_downgrade_def)
  have "history_get (snd (detect_downgrade_history h s True)) s"
    by (simp add: detect_downgrade_history_def history_get_def)
  then have "history_get (snd (run_downgrade_history (snd (detect_downgrade_history h s True)) cs)) s"
    by (rule run_downgrade_history_keeps_pqc)
  then have 11:
    "fst (detect_downgrade_history
            (snd (run_downgrade_history (snd (detect_downgrade_history h s True)) cs)) s False)
       = True"
    by (simp add: detect_downgrade_history_def)
  from 1 2 3 4 5 6 7 8 9 10 11 show ?thesis
    by blast
qed

text \<open>
  The rule at work: \<open>alice\<close> has no history, signs with PQC, \<open>bob\<close> signs classically in
  between, and \<open>alice\<close>'s classical call is then a downgrade.
\<close>

theorem downgrade_transition_rule_witness:
  "Map.empty ''alice'' = (None :: bool option)
   \<and> fst (detect_downgrade Map.empty ''alice'' False) = False
   \<and> fst (detect_downgrade_history Map.empty ''alice'' False) = False
   \<and> snd (detect_downgrade_history Map.empty ''alice'' True) ''bob'' = None
   \<and> fst (detect_downgrade
            (snd (run_downgrade (snd (detect_downgrade Map.empty ''alice'' True))
                    [(''bob'', False)])) ''alice'' False) = True"
  using downgrade_transition_rule
    [of Map.empty "''alice''" False Map.empty "[(''bob'', False)]"]
    downgrade_transition_rule
    [of Map.empty "''alice''" True Map.empty "[(''bob'', False)]"]
  by simp

section \<open>Properties of the risk oracle call\<close>

text \<open>
  C9. The oracle call never fails for its caller: a request that raises, a status other than
  200 and any exception inside the \<open>try\<close> block (a body that is not JSON, not an object,
  or whose \<open>risk_score\<close> has no integer value) give the fallback 10; a 200 response whose
  object holds an integer \<open>risk_score\<close> gives that integer, and one without the field
  gives 10.
\<close>

theorem oracle_failure_falls_back:
  "get_ai_risk parse RequestRaised = 10
   \<and> (status \<noteq> 200 \<longrightarrow> get_ai_risk parse (Response status body) = 10)
   \<and> (\<forall>e. get_ai_risk_try parse outcome = Inl e \<longrightarrow> get_ai_risk parse outcome = 10)
   \<and> (map_of data ''risk_score'' = Some (SInt n)
        \<longrightarrow> get_ai_risk parse (Response 200 (JsonValue (PDict data))) = n)
   \<and> (map_of data ''risk_score'' = None
        \<longrightarrow> get_ai_risk parse (Response 200 (JsonValue (PDict data))) = 10)"
  by (simp add: get_ai_risk_def dict_get_def)

text \<open>
  A 503 response, a 200 response whose body is a JSON list, one with the score 55 and one
  without a score.
\<close>

theorem oracle_failure_falls_back_witness:
  "get_ai_risk Map.empty (Response 503 NotJson) = 10
   \<and> get_ai_risk Map.empty (Response 200 (JsonValue (PList []))) = 10
   \<and> get_ai_risk Map.empty (Response 200 (JsonValue (PDict [(''risk_score'', SInt 55)]))) = 55
   \<and> get_ai_risk Map.empty (Response 200 (JsonValue (PDict [(''status'', SStr ''ok'')]))) = 10"
proof -
  have a: "(503::int) \<noteq> 200" by simp
  have b: "get_ai_risk_try Map.empty (Response 200 (JsonValue (PList []))) = Inl AttributeError"
    by simp
  have c: "map_of [(''risk_score'', SInt 55)] ''risk_score'' = Some (SInt 55)" by simp
  have d: "map_of [(''status'', SStr ''ok'')] ''risk_score'' = None" by simp
  show ?thesis
    using oracle_failure_falls_back
        [of Map.empty 503 NotJson "Response 200 (JsonValue (PList []))"
          "[(''risk_score'', SInt 55)]" 55]
      oracle_failure_falls_back
        [of Map.empty 503 NotJson "Response 200 (JsonValue (PList []))"
          "[(''status'', SStr ''ok'')]" 55]
      a b c d
    by blast
qed

section \<open>Properties of the signing endpoint\<close>

text \<open>
  The downgrade check of \<open>sign_transaction\<close> sits in the PQC branch and passes
  \<open>is_pqc = True\<close>, for which \<open>detect_downgrade\<close> answers \<open>False\<close>: neither branch
  raises, and no request is ever answered with the downgrade exception.
\<close>

lemma sign_branch_never_raises:
  "\<exists>st' sg. sign_branch sha oqs st request message = (st', Inr sg)"
  by (simp add: sign_branch_def detect_downgrade_def Let_def)

lemma sign_transaction_never_reports_downgrade:
  "snd (sign_transaction fr sha oqs parse outcome e t now st request)
     \<noteq> Inl (HTTPException 400 (DetailText ''Security downgrade detected''))"
proof -
  obtain st' sg where "sign_branch sha oqs st request (canonical fr (rq_transaction request))
      = (st', Inr sg)"
    using sign_branch_never_raises by blast
  then show ?thesis
    by (simp add: sign_transaction_def split_beta Let_def)
qed

lemma generate_analysis_large_amount:
  "tx_amount txd > 5000000 \<Longrightarrow>
     generate_analysis parse outcome e t txd alg
       = \<lparr>ga_secure = False, ga_risk = ''high'', ga_risk_score = 95\<rparr>"
  by (simp add: generate_analysis_def Let_def)

text \<open>
  C10. An amount above 5,000,000 sets the risk score to 95 whatever the oracle answers and
  whatever the two draws are; the analysis is high and not secure, and the endpoint raises
  the exception that carries that analysis instead of returning a response with the
  signature, in both signing branches and from every state.
\<close>

theorem large_amount_is_rejected:
  "tx_amount (rq_transaction request) > 5000000 \<longrightarrow>
     generate_analysis parse outcome e t (rq_transaction request) alg
       = \<lparr>ga_secure = False, ga_risk = ''high'', ga_risk_score = 95\<rparr>
     \<and> snd (sign_transaction fr sha oqs parse outcome e t now st request)
       = Inl (HTTPException 400
               (DetailAnalysis \<lparr>ga_secure = False, ga_risk = ''high'', ga_risk_score = 95\<rparr>))"
proof
  assume big: "tx_amount (rq_transaction request) > 5000000"
  obtain st' sg where b: "sign_branch sha oqs st request (canonical fr (rq_transaction request))
      = (st', Inr sg)"
    using sign_branch_never_raises by blast
  show "generate_analysis parse outcome e t (rq_transaction request) alg
       = \<lparr>ga_secure = False, ga_risk = ''high'', ga_risk_score = 95\<rparr>
     \<and> snd (sign_transaction fr sha oqs parse outcome e t now st request)
       = Inl (HTTPException 400
               (DetailAnalysis \<lparr>ga_secure = False, ga_risk = ''high'', ga_risk_score = 95\<rparr>))"
    using b generate_analysis_large_amount [OF big]
    by (simp add: sign_transaction_def split_beta)
qed

text \<open>An amount of 6,000,000 with an oracle score of 3 and quiet draws.\<close>

theorem large_amount_is_rejected_witness:
  "(5000000::real) < 6000000
   \<and> snd (sign_transaction integral_float_repr (\<lambda>m. full_digest) (\<lambda>w m. full_digest) Map.empty
            (Response 200 (JsonValue (PDict [(''risk_score'', SInt 3)]))) (19/20) (1/50) []
            empty_state
            \<lparr>rq_wallet_id = ''alice'', rq_transaction = example_tx\<lparr>tx_amount := 6000000\<rparr>,
              rq_algorithm = ''pqc'', rq_zkp = None\<rparr>)
     = Inl (HTTPException 400
             (DetailAnalysis \<lparr>ga_secure = False, ga_risk = ''high'', ga_risk_score = 95\<rparr>))"
proof -
  have big: "tx_amount (rq_transaction
      \<lparr>rq_wallet_id = ''alice'', rq_transaction = example_tx\<lparr>tx_amount := 6000000\<rparr>,
        rq_algorithm = ''pqc'', rq_zkp = None\<rparr>) > 5000000"
    by simp
  show ?thesis
    using big large_amount_is_rejected
      [of "\<lparr>rq_wallet_id = ''alice'', rq_transaction = example_tx\<lparr>tx_amount := 6000000\<rparr>,
             rq_algorithm = ''pqc'', rq_zkp = None\<rparr>"
        Map.empty "Response 200 (JsonValue (PDict [(''risk_score'', SInt 3)]))" "19/20" "1/50"
        "''ML-DSA-44''" integral_float_repr "\<lambda>m. full_digest" "\<lambda>w m. full_digest" "[]"
        empty_state]
    by simp
qed

lemma lower_pqc: "py_lower ''pqc'' = ''pqc''" "py_lower ''classical'' \<noteq> ''pqc''"
  by (simp_all add: py_lower_def lower_char_def)

text \<open>The oracle is unreachable, the entropy draw is 0.95 and the timing draw is 0.02.\<close>

lemma example_analysis:
  "generate_analysis parse RequestRaised (19/20) (1/50) example_tx alg
     = \<lparr>ga_secure = True, ga_risk = ''low'', ga_risk_score = 10\<rparr>"
  by (simp add: generate_analysis_def get_ai_risk_def example_tx_def Let_def)

lemma first_pqc_sign:
  "fst (sign_transaction fr sha oqs parse RequestRaised (19/20) (1/50) now empty_state
          (sign_request_of ''alice'' ''pqc''))
     = \<lparr>pqc_wallets = {''alice''}, wallet_security_mode = [''alice'' \<mapsto> True]\<rparr>"
  by (simp add: sign_transaction_def sign_branch_def detect_downgrade_def empty_state_def
      sign_request_of_def lower_pqc example_analysis Let_def)

text \<open>
  C2. The code at the scenario of the claim: \<open>alice\<close> signs with \<open>pqc\<close> from the empty
  state, which records PQC for her, and then signs the same transaction with
  \<open>classical\<close>. The second request is answered with a success response that carries the
  classical signature (the SHA-256 digest of the canonical message); the downgrade guard
  is not consulted in the classical branch.
\<close>

theorem classical_after_pqc_is_signed:
  "wallet_security_mode
     (fst (sign_transaction fr sha oqs parse RequestRaised (19/20) (1/50) now empty_state
             (sign_request_of ''alice'' ''pqc''))) ''alice'' = Some True
   \<and> snd (sign_transaction fr sha oqs parse RequestRaised (19/20) (1/50) now'
            (fst (sign_transaction fr sha oqs parse RequestRaised (19/20) (1/50) now empty_state
                    (sign_request_of ''alice'' ''pqc'')))
            (sign_request_of ''alice'' ''classical''))
     = Inr \<lparr>rs_status = ''success'', rs_signature = sha (canonical fr example_tx),
            rs_algorithm = ''ECDSA-SHA256'',
            rs_transaction_hash = sha (canonical fr example_tx),
            rs_analysis = \<lparr>ga_secure = True, ga_risk = ''low'', ga_risk_score = 10\<rparr>,
            rs_timestamp = now', rs_wallet_id = ''alice''\<rparr>"
  unfolding first_pqc_sign
  by (simp add: sign_transaction_def sign_branch_def sign_request_of_def
      lower_pqc example_analysis Let_def)

section \<open>Properties of the risk aggregation\<close>

lemma consistent_signals:
  "consistent initial_verdict"
  "consistent v \<Longrightarrow> consistent (replay_signal b v)"
  "consistent v \<Longrightarrow> consistent (entropy_signal e v)"
  "consistent v \<Longrightarrow> consistent (timing_signal t v)"
  "consistent v \<Longrightarrow> consistent (zkp_signal r v)"
  by (auto simp: consistent_def initial_verdict_def replay_signal_def entropy_signal_def
      timing_signal_def zkp_signal_def split: prod.splits)

lemma analyze_transaction_consistent:
  assumes "snd (analyze_transaction fr sha sl rnd r3 jitter seen tx sg alg zkp) = Inr a"
  shows "ra_risk a \<noteq> ''high'' \<or> \<not> ra_secure a"
proof -
  define v where "v = timing_signal (timing_leak_score sl rnd tx jitter)
     (entropy_signal (entropy_of fr sha tx)
       (replay_signal (fst (detect_replay fr sha seen tx sg)) initial_verdict))"
  have v: "consistent v"
    unfolding v_def by (intro consistent_signals)
  have "\<exists>w. consistent w \<and> ra_risk a = v_risk w \<and> ra_secure a = v_secure w"
  proof (cases zkp)
    case None
    with assms have "a = report r3 (entropy_of fr sha tx) (timing_leak_score sl rnd tx jitter) v"
      by (simp add: analyze_transaction_def v_def split_beta Let_def)
    then show ?thesis using v by (auto simp: report_def)
  next
    case (Some z)
    with assms obtain r where "verify_zkp_attributes tx (Some z) = Inr r"
      and "a = report r3 (entropy_of fr sha tx) (timing_leak_score sl rnd tx jitter) (zkp_signal r v)"
      by (auto simp: analyze_transaction_def v_def split_beta Let_def split: sum.splits)
    then show ?thesis using consistent_signals(5) [OF v, of r] by (auto simp: report_def)
  qed
  then show ?thesis by (auto simp: consistent_def)
qed

lemma generate_analysis_consistent:
  "ga_secure (generate_analysis parse outcome e t txd alg)
     = (ga_risk (generate_analysis parse outcome e t txd alg) \<noteq> ''high'')"
  by (simp add: generate_analysis_def Let_def)

text \<open>
  C3. Every analysis \<open>analyze_transaction\<close> returns, from every set of seen fingerprints
  and for every digest function, draw, transaction, signature and ZKP dictionary, and
  every analysis \<open>generate_analysis\<close> returns, for every oracle outcome and draws, has
  \<open>secure = False\<close> when its risk is \<open>high\<close>.
\<close>

theorem high_risk_is_insecure:
  "(\<forall>a. snd (analyze_transaction fr sha sl rnd r3 jitter seen tx sg alg zkp) = Inr a
        \<longrightarrow> ra_risk a = ''high'' \<longrightarrow> ra_secure a = False)
   \<and> (ga_risk (generate_analysis parse outcome e t txd alg') = ''high''
        \<longrightarrow> ga_secure (generate_analysis parse outcome e t txd alg') = False)"
  using analyze_transaction_consistent [of fr sha sl rnd r3 jitter seen tx sg alg zkp]
    generate_analysis_consistent [of parse outcome e t txd alg']
  by auto

text \<open>
  A transaction whose length as a string is 60, the timing draw 0.9 (a timing score of
  0.96, the rounding of the two float operations taken as the identity), and an oracle
  score of 80.
\<close>

theorem high_risk_is_insecure_witness:
  "snd (analyze_transaction integral_float_repr (\<lambda>m. full_digest) (\<lambda>d. 60) (\<lambda>x. x) (\<lambda>x. x) (9/10) {}
          (tx_dict_of example_tx) ''00'' ''pqc'' None)
     = Inr \<lparr>ra_secure = False, ra_risk = ''high'',
            ra_issues = [''High timing side-channel risk''], ra_entropy = 1,
            ra_timing_leak_score = 24/25\<rparr>
   \<and> ga_risk (generate_analysis Map.empty
                (Response 200 (JsonValue (PDict [(''risk_score'', SInt 80)]))) (19/20) (1/50)
                example_tx ''ML-DSA-44'') = ''high''
   \<and> ga_secure (generate_analysis Map.empty
                (Response 200 (JsonValue (PDict [(''risk_score'', SInt 80)]))) (19/20) (1/50)
                example_tx ''ML-DSA-44'') = False"
proof -
  let ?run = "analyze_transaction integral_float_repr (\<lambda>m. full_digest) (\<lambda>d. 60) (\<lambda>x. x) (\<lambda>x. x) (9/10)
      {} (tx_dict_of example_tx) ''00'' ''pqc'' None"
  let ?g = "generate_analysis Map.empty
      (Response 200 (JsonValue (PDict [(''risk_score'', SInt 80)]))) (19/20) (1/50)
      example_tx ''ML-DSA-44''"
  obtain a where a: "snd ?run = Inr a"
    by (simp add: analyze_transaction_def split_beta Let_def)
  have risk: "ra_risk a = ''high''"
    using a
    by (auto simp: analyze_transaction_def detect_replay_def replay_signal_def
        initial_verdict_def entropy_of_def message_entropy_def full_digest_def
        entropy_signal_def timing_leak_score_def timing_signal_def float_0_85_def float_0_45_def
        report_def Let_def)
  have g: "ga_risk ?g = ''high''"
    by (simp add: generate_analysis_def get_ai_risk_def dict_get_def example_tx_def Let_def)
  note inst = high_risk_is_insecure
    [of integral_float_repr "\<lambda>m. full_digest" "\<lambda>d. 60" "\<lambda>x. x" "\<lambda>x. x" "9/10" "{}"
      "tx_dict_of example_tx" "''00''" "''pqc''" None Map.empty
      "Response 200 (JsonValue (PDict [(''risk_score'', SInt 80)]))" "19/20" "1/50"
      example_tx "''ML-DSA-44''"]
  have sec: "ra_secure a = False" and gsec: "ga_secure ?g = False"
    using inst a risk g by blast+
  have "a = \<lparr>ra_secure = False, ra_risk = ''high'',
            ra_issues = [''High timing side-channel risk''], ra_entropy = 1,
            ra_timing_leak_score = 24/25\<rparr>"
    using a sec
    by (auto simp: analyze_transaction_def detect_replay_def replay_signal_def
        initial_verdict_def entropy_of_def message_entropy_def full_digest_def
        entropy_signal_def timing_leak_score_def timing_signal_def float_0_85_def float_0_45_def
        report_def Let_def)
  then show ?thesis using a g gsec by simp
qed

text \<open>
  The two float literals are within half a unit in the last place of their decimals, and a
  timing score equal to the lower one raises no issue.
\<close>

lemma float_literals_nearest:
  "\<bar>float_0_85 - 85/100\<bar> \<le> 1 / 2 ^ 54" "\<bar>float_0_45 - 45/100\<bar> \<le> 1 / 2 ^ 55"
  "45/100 < float_0_45"
  by (simp_all add: float_0_85_def float_0_45_def)

lemma timing_threshold_is_strict: "timing_signal float_0_45 v = v"
  by (simp add: timing_signal_def float_0_45_def float_0_85_def)

text \<open>
  The order of the signals: \<open>secure\<close>, once \<open>False\<close>, stays \<open>False\<close>; the timing
  and the ZKP signal keep a high risk high, and so does the entropy signal for an entropy
  outside the band from 0.15 to 0.35, inside which it assigns \<open>medium\<close> without looking
  at the risk it overwrites.
\<close>

lemma secure_never_restored:
  "\<not> v_secure v \<Longrightarrow> \<not> v_secure (replay_signal b v)"
  "\<not> v_secure v \<Longrightarrow> \<not> v_secure (entropy_signal e v)"
  "\<not> v_secure v \<Longrightarrow> \<not> v_secure (timing_signal t v)"
  "\<not> v_secure v \<Longrightarrow> \<not> v_secure (zkp_signal r v)"
  by (auto simp: replay_signal_def entropy_signal_def timing_signal_def zkp_signal_def
      split: prod.splits)

lemma high_kept_by_later_signals:
  "v_risk v = ''high'' \<Longrightarrow> v_risk (timing_signal t v) = ''high''"
  "v_risk v = ''high'' \<Longrightarrow> v_risk (zkp_signal r v) = ''high''"
  "v_risk v = ''high'' \<Longrightarrow> \<not> (3/20 \<le> e \<and> e < 7/20) \<Longrightarrow> v_risk (entropy_signal e v) = ''high''"
  by (auto simp: entropy_signal_def timing_signal_def zkp_signal_def split: prod.splits)

section \<open>Properties of replay detection\<close>

lemma detect_replay_first:
  "replay_key fr sha tx sg \<notin> seen \<Longrightarrow>
     detect_replay fr sha seen tx sg = (False, insert (replay_key fr sha tx sg) seen)"
  by (simp add: detect_replay_def)

lemma detect_replay_again:
  "replay_key fr sha tx sg \<in> seen \<Longrightarrow> detect_replay fr sha seen tx sg = (True, seen)"
  by (simp add: detect_replay_def)

lemma detect_replay_grows: "seen \<subseteq> snd (detect_replay fr sha seen tx sg)"
  by (auto simp: detect_replay_def Let_def)

lemma run_replay_grows: "seen \<subseteq> snd (run_replay fr sha seen calls)"
proof (induction calls arbitrary: seen)
  case Nil
  then show ?case by simp
next
  case (Cons c calls)
  obtain tx sg where c: "c = (tx, sg)" by (cases c)
  have "seen \<subseteq> snd (detect_replay fr sha seen tx sg)"
    by (rule detect_replay_grows)
  also have "\<dots> \<subseteq> snd (run_replay fr sha (snd (detect_replay fr sha seen tx sg)) calls)"
    by (rule Cons.IH)
  finally show ?case
    by (simp add: c split_beta Let_def)
qed

text \<open>
  Replay idempotence: a pair whose fingerprint is new is answered \<open>False\<close> and recorded;
  after that, and after any further calls, the same pair is answered \<open>True\<close> and the set
  is left as it is.
\<close>

lemma replay_idempotence:
  assumes "replay_key fr sha tx sg \<notin> seen"
  shows "detect_replay fr sha seen tx sg = (False, insert (replay_key fr sha tx sg) seen)"
    and "detect_replay fr sha
           (snd (run_replay fr sha (snd (detect_replay fr sha seen tx sg)) calls)) tx sg
         = (True, snd (run_replay fr sha (snd (detect_replay fr sha seen tx sg)) calls))"
proof -
  show first: "detect_replay fr sha seen tx sg = (False, insert (replay_key fr sha tx sg) seen)"
    using assms by (rule detect_replay_first)
  have "replay_key fr sha tx sg \<in> snd (detect_replay fr sha seen tx sg)"
    by (simp add: first)
  then have "replay_key fr sha tx sg
      \<in> snd (run_replay fr sha (snd (detect_replay fr sha seen tx sg)) calls)"
    using run_replay_grows by blast
  then show "detect_replay fr sha
           (snd (run_replay fr sha (snd (detect_replay fr sha seen tx sg)) calls)) tx sg
         = (True, snd (run_replay fr sha (snd (detect_replay fr sha seen tx sg)) calls))"
    by (rule detect_replay_again)
qed

text \<open>A replay verdict leaves \<open>secure = False\<close> in every analysis that is returned.\<close>

lemma replay_is_insecure:
  assumes "replay_key fr sha tx sg \<in> seen"
    and "snd (analyze_transaction fr sha sl rnd r3 jitter seen tx sg alg zkp) = Inr a"
  shows "ra_secure a = False"
proof -
  define v where "v = timing_signal (timing_leak_score sl rnd tx jitter)
     (entropy_signal (entropy_of fr sha tx) (replay_signal True initial_verdict))"
  have "\<not> v_secure (replay_signal True initial_verdict)"
    by (simp add: replay_signal_def)
  then have "\<not> v_secure (entropy_signal (entropy_of fr sha tx)
      (replay_signal True initial_verdict))"
    by (rule secure_never_restored(2))
  then have v: "\<not> v_secure v"
    unfolding v_def by (rule secure_never_restored(3))
  show ?thesis
  proof (cases zkp)
    case None
    with assms show ?thesis
      using v by (auto simp: analyze_transaction_def detect_replay_again v_def report_def Let_def)
  next
    case (Some z)
    with assms obtain r where "a = report r3 (entropy_of fr sha tx)
        (timing_leak_score sl rnd tx jitter) (zkp_signal r v)"
      by (auto simp: analyze_transaction_def detect_replay_again v_def Let_def
          split: sum.splits)
    then show ?thesis
      using secure_never_restored(4) [OF v, of r] by (simp add: report_def)
  qed
qed

text \<open>
  The entropy of a digest lies between the two thresholds of the entropy signal exactly
  when the digest has three, four or five distinct symbols.
\<close>

lemma entropy_band_symbols:
  "(3/20 \<le> message_entropy h \<and> message_entropy h < 7/20)
     = (3 \<le> length (remdups h) \<and> length (remdups h) \<le> 5)"
proof -
  have "(3/20 \<le> real k / 16 \<and> real k / 16 < 7/20) = (3 \<le> k \<and> k \<le> 5)" for k :: nat
    by (auto simp: field_simps)
  then show ?thesis by (simp add: message_entropy_def)
qed

text \<open>
  A replayed pair whose digest has fewer than three or more than five distinct symbols is
  analysed as high and not secure, whatever the timing score and the ZKP dictionary are.
\<close>

lemma replay_forces_high_outside_band:
  assumes "replay_key fr sha tx sg \<in> seen"
    and "\<not> (3 \<le> length (remdups (sha (json_dumps_default fr tx)))
            \<and> length (remdups (sha (json_dumps_default fr tx))) \<le> 5)"
    and "snd (analyze_transaction fr sha sl rnd r3 jitter seen tx sg alg zkp) = Inr a"
  shows "ra_risk a = ''high'' \<and> ra_secure a = False"
proof -
  define v where "v = timing_signal (timing_leak_score sl rnd tx jitter)
     (entropy_signal (entropy_of fr sha tx) (replay_signal True initial_verdict))"
  have band: "\<not> (3/20 \<le> entropy_of fr sha tx \<and> entropy_of fr sha tx < 7/20)"
    using assms(2) entropy_band_symbols [of "sha (json_dumps_default fr tx)"]
    unfolding entropy_of_def by blast
  have "v_risk (replay_signal True initial_verdict) = ''high''"
    by (simp add: replay_signal_def)
  then have "v_risk (entropy_signal (entropy_of fr sha tx) (replay_signal True initial_verdict))
      = ''high''"
    using band by (rule high_kept_by_later_signals(3))
  then have v: "v_risk v = ''high''"
    unfolding v_def by (rule high_kept_by_later_signals(1))
  have risk: "ra_risk a = ''high''"
  proof (cases zkp)
    case None
    with assms(1,3) show ?thesis
      using v by (auto simp: analyze_transaction_def detect_replay_again v_def report_def Let_def)
  next
    case (Some z)
    with assms(1,3) obtain r where "a = report r3 (entropy_of fr sha tx)
        (timing_leak_score sl rnd tx jitter) (zkp_signal r v)"
      by (auto simp: analyze_transaction_def detect_replay_again v_def Let_def
          split: sum.splits)
    then show ?thesis
      using high_kept_by_later_signals(2) [OF v, of r] by (simp add: report_def)
  qed
  moreover have "ra_secure a = False"
    using assms(1,3) by (rule replay_is_insecure)
  ultimately show ?thesis by simp
qed

text \<open>
  The branch that is left: for a replayed pair whose digest has three to five distinct
  symbols the entropy signal assigns \<open>medium\<close> over the \<open>high\<close> of the replay signal,
  and with a timing score not above the upper threshold and no ZKP dictionary the
  analysis is returned as \<open>medium\<close>. The digest function is a parameter here; whether
  SHA-256 maps the serialisation of some transaction to such a digest is not decided.
\<close>

lemma replay_in_band_is_medium:
  assumes "replay_key fr sha tx sg \<in> seen"
    and "3 \<le> length (remdups (sha (json_dumps_default fr tx)))"
    and "length (remdups (sha (json_dumps_default fr tx))) \<le> 5"
    and "timing_leak_score sl rnd tx jitter \<le> float_0_85"
  shows "\<exists>a. snd (analyze_transaction fr sha sl rnd r3 jitter seen tx sg alg None) = Inr a
           \<and> ra_risk a = ''medium'' \<and> ra_secure a = False"
proof -
  have "3/20 \<le> entropy_of fr sha tx \<and> entropy_of fr sha tx < 7/20"
    using assms(2,3) entropy_band_symbols [of "sha (json_dumps_default fr tx)"]
    unfolding entropy_of_def by blast
  then show ?thesis
    using assms(1,4)
    by (auto simp: analyze_transaction_def detect_replay_again replay_signal_def
        initial_verdict_def entropy_signal_def timing_signal_def report_def Let_def)
qed

section \<open>Properties of the fraud mapper\<close>

lemma map_to_fraud_alert_needs_metrics:
  "ad_metrics analysis = None \<Longrightarrow> map_to_fraud_alert analysis = Inl KeyError"
  by (simp add: map_to_fraud_alert_def)

lemma map_to_fraud_alert_reads_risk_and_issues:
  "ad_metrics x \<noteq> None \<Longrightarrow> ad_metrics y \<noteq> None \<Longrightarrow> ad_risk x = ad_risk y
     \<Longrightarrow> ad_issues x = ad_issues y \<Longrightarrow> map_to_fraud_alert x = map_to_fraud_alert y"
  by (auto simp: map_to_fraud_alert_def Let_def)

text \<open>
  C7. On the dictionary of every analysis the fraud mapper returns the row of the table
  that the risk selects: \<open>high\<close> gives fraud with probability 0.85, severity \<open>High\<close> and
  the issues joined by a comma and a space; \<open>medium\<close> gives fraud with probability 0.55,
  severity \<open>Medium\<close> and the fixed text; every other risk gives no fraud, probability
  0.1, severity \<open>Low\<close> and the fixed text. Two analyses with the same risk and the same
  issues get the same alert.
\<close>

theorem fraud_mapper_table:
  "map_to_fraud_alert (as_dict a) =
     Inr (if ra_risk a = ''high''
          then \<lparr>fraud = True, probability = 0.85, severity = ''High'',
                reason = py_join '', '' (ra_issues a)\<rparr>
          else if ra_risk a = ''medium''
          then \<lparr>fraud = True, probability = 0.55, severity = ''Medium'',
                reason = ''Suspicious entropy or timing pattern''\<rparr>
          else \<lparr>fraud = False, probability = 0.1, severity = ''Low'',
                reason = ''Transaction appears normal''\<rparr>)
   \<and> (ra_risk a = ra_risk b \<and> ra_issues a = ra_issues b
        \<longrightarrow> map_to_fraud_alert (as_dict a) = map_to_fraud_alert (as_dict b))"
  by (simp add: map_to_fraud_alert_def as_dict_def Let_def)

text \<open>Two high analyses with the same issues and different metrics.\<close>

theorem fraud_mapper_table_witness:
  "map_to_fraud_alert
     (as_dict \<lparr>ra_secure = False, ra_risk = ''high'',
               ra_issues = [''Replay attack detected'', ''High timing side-channel risk''],
               ra_entropy = 1, ra_timing_leak_score = 9/10\<rparr>)
   = Inr \<lparr>fraud = True, probability = 17/20, severity = ''High'',
          reason = ''Replay attack detected, High timing side-channel risk''\<rparr>
   \<and> map_to_fraud_alert
       (as_dict \<lparr>ra_secure = False, ra_risk = ''high'',
                 ra_issues = [''Replay attack detected'', ''High timing side-channel risk''],
                 ra_entropy = 1/2, ra_timing_leak_score = 1\<rparr>)
   = Inr \<lparr>fraud = True, probability = 17/20, severity = ''High'',
          reason = ''Replay attack detected, High timing side-channel risk''\<rparr>"
  using fraud_mapper_table
    [of "\<lparr>ra_secure = False, ra_risk = ''high'',
          ra_issues = [''Replay attack detected'', ''High timing side-channel risk''],
          ra_entropy = 1, ra_timing_leak_score = 9/10\<rparr>"
      "\<lparr>ra_secure = False, ra_risk = ''high'',
          ra_issues = [''Replay attack detected'', ''High timing side-channel risk''],
          ra_entropy = 1/2, ra_timing_leak_score = 1\<rparr>"]
    fraud_mapper_table
    [of "\<lparr>ra_secure = False, ra_risk = ''high'',
          ra_issues = [''Replay attack detected'', ''High timing side-channel risk''],
          ra_entropy = 1/2, ra_timing_leak_score = 1\<rparr>"
      "\<lparr>ra_secure = False, ra_risk = ''high'',
          ra_issues = [''Replay attack detected'', ''High timing side-channel risk''],
          ra_entropy = 1, ra_timing_leak_score = 9/10\<rparr>"]
  by simp

section \<open>Properties of the canonicalisation\<close>

lemma sorted_tx_items:
  "sort_key fst (tx_dict_of tx) =
     [(''amount'', SFloat (tx_amount tx)), (''nonce'', SInt (tx_nonce tx)),
      (''timestamp'', SStr (tx_timestamp tx)), (''to'', SStr (tx_to tx))]"
  by (simp add: tx_dict_of_def)

lemma canonical_form:
  "canonical fr tx =
     ''{'' @ json_string ''amount'' @ '':'' @ fr (tx_amount tx)
       @ '','' @ json_string ''nonce'' @ '':'' @ py_str_int (tx_nonce tx)
       @ '','' @ json_string ''timestamp'' @ '':'' @ json_string (tx_timestamp tx)
       @ '','' @ json_string ''to'' @ '':'' @ json_string (tx_to tx) @ ''}''"
  by (simp add: canonical_def json_dumps_def json_item_def sorted_tx_items)

lemma default_form:
  "json_dumps_default fr (tx_dict_of tx) =
     ''{'' @ json_string ''amount'' @ '': '' @ fr (tx_amount tx)
       @ '', '' @ json_string ''nonce'' @ '': '' @ py_str_int (tx_nonce tx)
       @ '', '' @ json_string ''timestamp'' @ '': '' @ json_string (tx_timestamp tx)
       @ '', '' @ json_string ''to'' @ '': '' @ json_string (tx_to tx) @ ''}''"
  by (simp add: json_dumps_default_def json_dumps_def json_item_def sorted_tx_items)

lemma default_longer:
  "length (json_dumps_default fr (tx_dict_of tx)) = length (canonical fr tx) + 7"
  by (simp add: canonical_form default_form)

lemma filter_key_singleton:
  "distinct (map fst xs) \<Longrightarrow> k \<in> set xs \<Longrightarrow> filter (\<lambda>x. fst k = fst x) xs = [k]"
proof (induction xs)
  case Nil
  then show ?case by simp
next
  case (Cons x xs)
  show ?case
  proof (cases "k = x")
    case True
    have "filter (\<lambda>y. fst x = fst y) xs = []"
      using Cons.prems(1) by (auto simp: filter_empty_conv)
    with True show ?thesis by simp
  next
    case False
    with Cons.prems have k: "k \<in> set xs" by simp
    from Cons.prems(1) have "fst x \<notin> fst ` set xs" by simp
    with k have "fst k \<noteq> fst x" by (metis imageI)
    with Cons k show ?thesis by simp
  qed
qed

lemma sort_key_dict_unique:
  assumes "distinct (map fst xs)" and "mset xs = mset ys"
  shows "sort_key fst xs = sort_key fst ys"
proof (rule properties_for_sort_key)
  show "mset (sort_key fst ys) = mset xs"
    using assms(2) by simp
  show "sorted (map fst (sort_key fst ys))"
    by simp
  fix k assume k: "k \<in> set (sort_key fst ys)"
  have "mset (map fst xs) = mset (map fst ys)"
    using assms(2) by (metis mset_map)
  then have dy: "distinct (map fst ys)"
    using assms(1) by (metis mset_eq_imp_distinct_iff)
  have "mset (map fst (sort_key fst ys)) = mset (map fst ys)"
    by simp
  then have ds: "distinct (map fst (sort_key fst ys))"
    using dy by (metis mset_eq_imp_distinct_iff)
  have kx: "k \<in> set xs"
    using k assms(2) by (metis mset_eq_setD set_sort)
  show "filter (\<lambda>x. fst k = fst x) (sort_key fst ys) = filter (\<lambda>x. fst k = fst x) xs"
    by (simp add: filter_key_singleton [OF ds k] filter_key_singleton [OF assms(1) kx])
qed

lemma json_dumps_order_independent:
  "distinct (map fst xs) \<Longrightarrow> mset xs = mset ys
     \<Longrightarrow> json_dumps fr item_sep key_sep xs = json_dumps fr item_sep key_sep ys"
  by (simp add: json_dumps_def sort_key_dict_unique [of xs ys])

lemma distinct_tx_keys: "distinct (map fst (tx_dict_of tx))"
  by (simp add: tx_dict_of_def)

lemma hex_digit_no_space:
  assumes "n < 16"
  shows "hex_digit n \<noteq> CHR '' ''"
proof -
  have "n < length ''0123456789abcdef''"
    using assms by simp
  then have "''0123456789abcdef'' ! n \<in> set ''0123456789abcdef''"
    by (rule nth_mem)
  then show ?thesis
    unfolding hex_digit_def by auto
qed

lemma json_escape_char_space:
  "CHR '' '' \<in> set (json_escape_char c) \<Longrightarrow> c = CHR '' ''"
proof -
  have "(of_char c :: nat) < 256" by simp
  then have "(of_char c :: nat) div 16 < 16" "(of_char c :: nat) mod 16 < 16" by arith+
  then have "hex_digit ((of_char c :: nat) div 16) \<noteq> CHR '' ''"
    "hex_digit ((of_char c :: nat) mod 16) \<noteq> CHR '' ''"
    by (simp_all add: hex_digit_no_space)
  then show "CHR '' '' \<in> set (json_escape_char c) \<Longrightarrow> c = CHR '' ''"
    by (auto simp: json_escape_char_def split: if_splits)
qed

lemma json_string_space:
  "CHR '' '' \<notin> set s \<Longrightarrow> CHR '' '' \<notin> set (json_string s)"
  by (auto simp: json_string_def dest: json_escape_char_space)

lemma digits10_no_space: "CHR '' '' \<notin> set (digits10 n)"
proof (induction n rule: digits10.induct)
  case (1 n)
  have d: "''0123456789'' ! k \<noteq> CHR '' ''" if "k < 10" for k :: nat
  proof -
    have "k < length ''0123456789''"
      using that by simp
    then have "''0123456789'' ! k \<in> set ''0123456789''"
      by (rule nth_mem)
    then show ?thesis by auto
  qed
  show ?case
  proof (cases "n < 10")
    case True
    then show ?thesis using d [of n] by (subst digits10.simps) simp
  next
    case False
    then show ?thesis using 1 d [of "n mod 10"] by (subst digits10.simps) simp
  qed
qed

lemma py_str_int_no_space: "CHR '' '' \<notin> set (py_str_int i)"
  by (simp add: py_str_int_def digits10_no_space)

lemma canonical_no_space:
  "CHR '' '' \<notin> set (fr (tx_amount tx)) \<Longrightarrow> CHR '' '' \<notin> set (tx_to tx)
     \<Longrightarrow> CHR '' '' \<notin> set (tx_timestamp tx) \<Longrightarrow> CHR '' '' \<notin> set (canonical fr tx)"
  using json_string_space [of "tx_to tx"] json_string_space [of "tx_timestamp tx"]
    json_string_space [of "''amount''"] json_string_space [of "''nonce''"]
    json_string_space [of "''timestamp''"] json_string_space [of "''to''"]
    py_str_int_no_space [of "tx_nonce tx"]
  by (simp add: canonical_form)

text \<open>
  The scenario transaction: its canonical bytes, the text that \<open>detect_replay\<close> and the
  entropy signal hash, and, with the identity in the place of the digest function so that
  the fingerprint is the hashed text itself, the difference between the two.
\<close>

theorem hashed_text_is_not_canonical:
  \<open>canonical integral_float_repr example_tx
     = ''{"amount":100.0,"nonce":1,"timestamp":"2024-01-01T00:00:00Z","to":"bob"}''
   \<and> json_dumps_default integral_float_repr (tx_dict_of example_tx)
     = ''{"amount": 100.0, "nonce": 1, "timestamp": "2024-01-01T00:00:00Z", "to": "bob"}''
   \<and> replay_key integral_float_repr (\<lambda>m. m) (tx_dict_of example_tx) ''00''
     \<noteq> canonical integral_float_repr example_tx @ ''00''\<close>
  by (simp add: replay_key_def canonical_form default_form example_tx_def
      integral_float_repr_def py_str_int_def digits10.simps json_string_def json_escape_char_def)

text \<open>
  C5, as amended. \<open>canonical\<close> writes the four fields in the sorted order of their keys
  (amount, nonce, timestamp, to) with the separators \<open>,\<close> and \<open>:\<close> and nothing else
  between the tokens, so that it holds no space unless a field value does; a dictionary
  with the same items in any other insertion order gives the same bytes. The replay
  fingerprint and the entropy hash are computed over another serialisation of the
  transaction, \<open>json.dumps(tx, sort_keys=True)\<close> with the default separators
  \<open>', '\<close> and \<open>': '\<close> (followed by the signature, for the fingerprint), which is
  as independent of the insertion order.
\<close>

theorem canonical_sorted_compact:
  "canonical fr tx =
     ''{'' @ json_string ''amount'' @ '':'' @ fr (tx_amount tx)
       @ '','' @ json_string ''nonce'' @ '':'' @ py_str_int (tx_nonce tx)
       @ '','' @ json_string ''timestamp'' @ '':'' @ json_string (tx_timestamp tx)
       @ '','' @ json_string ''to'' @ '':'' @ json_string (tx_to tx) @ ''}''
   \<and> (mset d = mset (tx_dict_of tx) \<longrightarrow> json_dumps fr '','' '':'' d = canonical fr tx)
   \<and> (CHR '' '' \<notin> set (fr (tx_amount tx)) \<and> CHR '' '' \<notin> set (tx_to tx)
        \<and> CHR '' '' \<notin> set (tx_timestamp tx) \<longrightarrow> CHR '' '' \<notin> set (canonical fr tx))
   \<and> (distinct (map fst xs) \<and> mset xs = mset ys
        \<longrightarrow> json_dumps_default fr xs = json_dumps_default fr ys)
   \<and> replay_key fr sha xs sg = sha (json_dumps fr '', '' '': '' xs @ sg)
   \<and> entropy_of fr sha xs = message_entropy (sha (json_dumps fr '', '' '': '' xs))
   \<and> json_dumps fr '', '' '': '' (tx_dict_of tx) =
     ''{'' @ json_string ''amount'' @ '': '' @ fr (tx_amount tx)
       @ '', '' @ json_string ''nonce'' @ '': '' @ py_str_int (tx_nonce tx)
       @ '', '' @ json_string ''timestamp'' @ '': '' @ json_string (tx_timestamp tx)
       @ '', '' @ json_string ''to'' @ '': '' @ json_string (tx_to tx) @ ''}''"
proof -
  have 1: "mset d = mset (tx_dict_of tx) \<longrightarrow> json_dumps fr '','' '':'' d = canonical fr tx"
    using json_dumps_order_independent [OF distinct_tx_keys, of tx d fr "'',''" "'':''"]
    by (auto simp: canonical_def)
  have 2: "distinct (map fst xs) \<and> mset xs = mset ys
        \<longrightarrow> json_dumps_default fr xs = json_dumps_default fr ys"
    using json_dumps_order_independent [of xs ys fr]
    by (auto simp: json_dumps_default_def)
  have 3: "replay_key fr sha xs sg = sha (json_dumps fr '', '' '': '' xs @ sg)"
    by (simp add: replay_key_def json_dumps_default_def)
  have 4: "entropy_of fr sha xs = message_entropy (sha (json_dumps fr '', '' '': '' xs))"
    by (simp add: entropy_of_def json_dumps_default_def)
  show ?thesis
    using 1 2 3 4 canonical_form [of fr tx] canonical_no_space [of fr tx]
      default_form [of fr tx]
    unfolding json_dumps_default_def by blast
qed

text \<open>The scenario transaction with its fields inserted in the reverse order.\<close>

theorem canonical_sorted_compact_witness:
  \<open>json_dumps integral_float_repr '','' '':''
       [(''to'', SStr ''bob''), (''timestamp'', SStr ''2024-01-01T00:00:00Z''),
        (''nonce'', SInt 1), (''amount'', SFloat 100)]
     = canonical integral_float_repr example_tx
   \<and> CHR '' '' \<notin> set (canonical integral_float_repr example_tx)
   \<and> json_dumps_default integral_float_repr
       [(''b'', SInt 2), (''a'', SNone)]
     = json_dumps_default integral_float_repr [(''a'', SNone), (''b'', SInt 2)]\<close>
proof -
  have a: "mset [(''to'', SStr ''bob''), (''timestamp'', SStr ''2024-01-01T00:00:00Z''),
        (''nonce'', SInt 1), (''amount'', SFloat 100)] = mset (tx_dict_of example_tx)"
    by (simp add: tx_dict_of_def example_tx_def)
  have b: "CHR '' '' \<notin> set (integral_float_repr (tx_amount example_tx))
      \<and> CHR '' '' \<notin> set (tx_to example_tx) \<and> CHR '' '' \<notin> set (tx_timestamp example_tx)"
    by (simp add: example_tx_def integral_float_repr_def py_str_int_def digits10.simps)
  have c: "distinct (map fst [(''b'', SInt 2), (''a'', SNone)])
      \<and> mset [(''b'', SInt 2), (''a'', SNone)] = mset [(''a'', SNone), (''b'', SInt 2)]"
    by simp
  show ?thesis
    using a b c canonical_sorted_compact
      [of integral_float_repr example_tx
        "[(''to'', SStr ''bob''), (''timestamp'', SStr ''2024-01-01T00:00:00Z''),
          (''nonce'', SInt 1), (''amount'', SFloat 100)]"
        "[(''b'', SInt 2), (''a'', SNone)]" "[(''a'', SNone), (''b'', SInt 2)]"]
    by blast
qed

section \<open>Properties of the ZKP attribute verification\<close>

lemma verify_disabled:
  "verify_zkp_attributes tx None = Inr (True, [])"
  "verify_zkp_attributes tx (Some []) = Inr (True, [])"
  "\<not> py_truthy (dict_get z ''enable'' (Scalar (SBool False)))
     \<Longrightarrow> verify_zkp_attributes tx (Some z) = Inr (True, [])"
  by (simp_all add: verify_zkp_attributes_def)

lemma verify_enabled:
  assumes "z \<noteq> []" and "py_truthy (dict_get z ''enable'' (Scalar (SBool False)))"
    and "dict_get z ''attributes'' (PList []) = PList attrs"
    and "dict_get z ''public_inputs'' (PDict []) = PDict inputs"
    and "num_of (dict_get tx ''amount'' (SInt 0)) = Some r"
  shows "verify_zkp_attributes tx (Some z) = Inr (zkp_expected tx attrs inputs (r > 0))"
  using assms
  by (simp add: verify_zkp_attributes_def zkp_expected_def has_attribute_def check_optional_def
      py_gt_zero_def Let_def)

lemma zkp_expected_fails_iff:
  "fst (zkp_expected tx attrs inputs positive) = False \<longleftrightarrow>
     \<not> has_attribute ''amount_gt_zero'' attrs
     \<or> map_of inputs ''amount_gt_zero'' = None
     \<or> \<not> py_eq (dict_get inputs ''amount_gt_zero'' SNone) (SBool positive)
     \<or> (has_attribute ''nonce'' attrs
          \<and> \<not> py_eq (dict_get inputs ''nonce'' SNone) (dict_get tx ''nonce'' SNone))
     \<or> (has_attribute ''recipient'' attrs
          \<and> \<not> py_eq (dict_get inputs ''recipient'' SNone) (dict_get tx ''to'' SNone))"
  by (simp add: zkp_expected_def)

lemma zkp_failure_forces_high:
  assumes "verify_zkp_attributes tx (Some z) = Inr (False, issue)"
  shows "\<exists>a. snd (analyze_transaction fr sha sl rnd r3 jitter seen tx sg alg (Some z)) = Inr a
           \<and> ra_risk a = ''high'' \<and> ra_secure a = False \<and> issue \<in> set (ra_issues a)"
  using assms
  by (simp add: analyze_transaction_def split_beta Let_def zkp_signal_def report_def)

lemma scenario_with_enable:
  "verify_zkp_attributes (tx_dict_of example_tx) (Some (scenario_zkp ''enable''))
     = Inr (False, ''ZKP verification failed: amount_gt_zero mismatch'')"
  by (simp add: verify_zkp_attributes_def scenario_zkp_def dict_get_def tx_dict_of_def
      example_tx_def py_gt_zero_def Let_def)

text \<open>
  The fourth scenario as the claim writes it, with the switch named \<open>enabled\<close>: the
  verifier reads \<open>enable\<close>, finds none, and passes the proof unchecked; the analysis
  (a digest with sixteen symbols, no jitter, nothing seen before) is low and secure.
\<close>

theorem enabled_key_is_not_read:
  "verify_zkp_attributes (tx_dict_of example_tx) (Some (scenario_zkp ''enabled'')) = Inr (True, [])
   \<and> snd (analyze_transaction integral_float_repr (\<lambda>m. full_digest) (\<lambda>d. 60) (\<lambda>x. x) (\<lambda>x. x) 0 {}
           (tx_dict_of example_tx) ''00'' ''pqc'' (Some (scenario_zkp ''enabled'')))
     = Inr \<lparr>ra_secure = True, ra_risk = ''low'', ra_issues = [], ra_entropy = 1,
            ra_timing_leak_score = 3/50\<rparr>"
  by (simp add: verify_zkp_attributes_def scenario_zkp_def dict_get_def
      analyze_transaction_def detect_replay_def replay_signal_def
      initial_verdict_def entropy_of_def message_entropy_def full_digest_def
      entropy_signal_def timing_leak_score_def timing_signal_def float_0_85_def float_0_45_def
        report_def zkp_signal_def
      Let_def)

text \<open>
  C6, as amended. The verifier passes, with an empty issue, a proof that is absent or
  empty or whose key \<open>enable\<close> is missing or falsy. For a proof whose \<open>enable\<close> is
  truthy, whose attributes are a list and whose public inputs are a dictionary, against a
  transaction with a numeric amount, it returns the verdict of \<open>zkp_expected\<close>: it fails
  exactly when \<open>amount_gt_zero\<close> is missing from the attributes or from the public
  inputs (the issue names the missing item), or its public input differs from
  \<open>amount > 0\<close>, or a listed \<open>nonce\<close> or \<open>recipient\<close> differs from the field of the
  transaction. The proof of the fourth scenario with the switch \<open>enable\<close> fails with the
  mismatch issue, and every failure makes the analysis high and not secure, with the
  issue among its issues.
\<close>

theorem zkp_verification_characterised:
  "verify_zkp_attributes tx None = Inr (True, [])
   \<and> verify_zkp_attributes tx (Some []) = Inr (True, [])
   \<and> (\<not> py_truthy (dict_get z ''enable'' (Scalar (SBool False)))
        \<longrightarrow> verify_zkp_attributes tx (Some z) = Inr (True, []))
   \<and> (z \<noteq> [] \<and> py_truthy (dict_get z ''enable'' (Scalar (SBool False)))
        \<and> dict_get z ''attributes'' (PList []) = PList attrs
        \<and> dict_get z ''public_inputs'' (PDict []) = PDict inputs
        \<and> num_of (dict_get tx ''amount'' (SInt 0)) = Some r
        \<longrightarrow> verify_zkp_attributes tx (Some z) = Inr (zkp_expected tx attrs inputs (r > 0)))
   \<and> (fst (zkp_expected tx attrs inputs positive) = False \<longleftrightarrow>
          \<not> has_attribute ''amount_gt_zero'' attrs
          \<or> map_of inputs ''amount_gt_zero'' = None
          \<or> \<not> py_eq (dict_get inputs ''amount_gt_zero'' SNone) (SBool positive)
          \<or> (has_attribute ''nonce'' attrs
               \<and> \<not> py_eq (dict_get inputs ''nonce'' SNone) (dict_get tx ''nonce'' SNone))
          \<or> (has_attribute ''recipient'' attrs
               \<and> \<not> py_eq (dict_get inputs ''recipient'' SNone) (dict_get tx ''to'' SNone)))
   \<and> verify_zkp_attributes (tx_dict_of example_tx) (Some (scenario_zkp ''enable''))
       = Inr (False, ''ZKP verification failed: amount_gt_zero mismatch'')
   \<and> (verify_zkp_attributes tx (Some z) = Inr (False, issue)
        \<longrightarrow> (\<exists>a. snd (analyze_transaction fr sha sl rnd r3 jitter seen tx sg alg (Some z)) = Inr a
                 \<and> ra_risk a = ''high'' \<and> ra_secure a = False \<and> issue \<in> set (ra_issues a)))"
proof -
  have d1: "verify_zkp_attributes tx None = Inr (True, [])"
    and d2: "verify_zkp_attributes tx (Some []) = Inr (True, [])"
    and d3: "\<not> py_truthy (dict_get z ''enable'' (Scalar (SBool False)))
        \<longrightarrow> verify_zkp_attributes tx (Some z) = Inr (True, [])"
    by (simp_all add: verify_disabled)
  have e: "z \<noteq> [] \<and> py_truthy (dict_get z ''enable'' (Scalar (SBool False)))
        \<and> dict_get z ''attributes'' (PList []) = PList attrs
        \<and> dict_get z ''public_inputs'' (PDict []) = PDict inputs
        \<and> num_of (dict_get tx ''amount'' (SInt 0)) = Some r
        \<longrightarrow> verify_zkp_attributes tx (Some z) = Inr (zkp_expected tx attrs inputs (r > 0))"
    using verify_enabled by blast
  have f: "verify_zkp_attributes tx (Some z) = Inr (False, issue)
        \<longrightarrow> (\<exists>a. snd (analyze_transaction fr sha sl rnd r3 jitter seen tx sg alg (Some z)) = Inr a
                 \<and> ra_risk a = ''high'' \<and> ra_secure a = False \<and> issue \<in> set (ra_issues a))"
    using zkp_failure_forces_high by blast
  show ?thesis
    by (intro conjI d1 d2 d3 e f zkp_expected_fails_iff scenario_with_enable)
qed

text \<open>The fourth scenario with the switch \<open>enable\<close>, and a proof switched off.\<close>

theorem zkp_verification_characterised_witness:
  "verify_zkp_attributes (tx_dict_of example_tx) (Some (scenario_zkp ''enable''))
     = Inr (zkp_expected (tx_dict_of example_tx) [SStr ''amount_gt_zero'']
              [(''amount_gt_zero'', SBool False)] True)
   \<and> (\<exists>a. snd (analyze_transaction integral_float_repr (\<lambda>m. full_digest) (\<lambda>d. 60) (\<lambda>x. x) (\<lambda>x. x) 0 {}
                 (tx_dict_of example_tx) ''00'' ''pqc'' (Some (scenario_zkp ''enable''))) = Inr a
          \<and> ra_risk a = ''high'' \<and> ra_secure a = False
          \<and> ''ZKP verification failed: amount_gt_zero mismatch'' \<in> set (ra_issues a))
   \<and> verify_zkp_attributes (tx_dict_of example_tx) (Some [(''enable'', Scalar (SBool False))])
     = Inr (True, [])"
proof -
  let ?z = "scenario_zkp ''enable''"
  let ?tx = "tx_dict_of example_tx"
  have h: "?z \<noteq> [] \<and> py_truthy (dict_get ?z ''enable'' (Scalar (SBool False)))
        \<and> dict_get ?z ''attributes'' (PList []) = PList [SStr ''amount_gt_zero'']
        \<and> dict_get ?z ''public_inputs'' (PDict []) = PDict [(''amount_gt_zero'', SBool False)]
        \<and> num_of (dict_get ?tx ''amount'' (SInt 0)) = Some 100"
    by (simp add: scenario_zkp_def dict_get_def tx_dict_of_def example_tx_def)
  have off: "\<not> py_truthy (dict_get [(''enable'', Scalar (SBool False))] ''enable''
      (Scalar (SBool False)))"
    by (simp add: dict_get_def)
  note one = zkp_verification_characterised
    [where tx = ?tx and z = ?z and attrs = "[SStr ''amount_gt_zero'']"
      and inputs = "[(''amount_gt_zero'', SBool False)]" and r = 100
      and issue = "''ZKP verification failed: amount_gt_zero mismatch''"
      and fr = integral_float_repr and sha = "\<lambda>m. full_digest" and sl = "\<lambda>d. 60"
      and rnd = "\<lambda>x. x" and ?r3.0 = "\<lambda>x. x" and jitter = 0 and seen = "{}" and sg = "''00''" and alg = "''pqc''"]
  note two = zkp_verification_characterised
    [where tx = ?tx and z = "[(''enable'', Scalar (SBool False))]"]
  have a: "verify_zkp_attributes ?tx (Some ?z)
      = Inr (zkp_expected ?tx [SStr ''amount_gt_zero''] [(''amount_gt_zero'', SBool False)]
               ((100::real) > 0))"
    using one h by blast
  have b: "\<exists>a. snd (analyze_transaction integral_float_repr (\<lambda>m. full_digest) (\<lambda>d. 60) (\<lambda>x. x) (\<lambda>x. x) 0 {}
                 ?tx ''00'' ''pqc'' (Some ?z)) = Inr a
          \<and> ra_risk a = ''high'' \<and> ra_secure a = False
          \<and> ''ZKP verification failed: amount_gt_zero mismatch'' \<in> set (ra_issues a)"
    using one by blast
  have c: "verify_zkp_attributes ?tx (Some [(''enable'', Scalar (SBool False))]) = Inr (True, [])"
    using two off by blast
  show ?thesis
    using a b c by simp
qed

end
